theory Spec2Isabelle
  imports Main
begin

section \<open>Data model\<close>

text \<open>
  The portal provisioning code works on three relations: \<open>auth.users\<close> (owned by the
  authentication provider), \<open>public.usuarios\<close> (the application profiles) and
  \<open>public.clientes\<close> (the customers). Identifiers are UUIDs, carried here as strings as
  the TypeScript client does; timestamps are natural numbers (a larger number is a later
  instant).
\<close>

text \<open>
  Modelled from the spec: the \<open>CREATE TABLE\<close> statements of \<open>usuarios\<close> and \<open>clientes\<close>,
  which are not part of the migration. The columns are the ones the procedures read and
  write. Following the data model of the specification, the soft-delete marker
  \<open>deleted_at\<close> is the only nullable column of a profile, \<open>created_at\<close> is a timestamp
  filled in by the table default, and \<open>id\<close> is the primary key of \<open>usuarios\<close>.
  \<open>clientes.usuario_portal_id\<close> is the nullable reference to \<open>auth.users(id)\<close> that the
  migration adds.
\<close>

type_synonym uuid = string
type_synonym timestamp = nat

record usuario =
  u_id :: uuid
  nome :: string
  u_email :: string
  tipo_usuario :: string
  tenant_id :: uuid
  created_by :: uuid
  updated_by :: uuid
  created_at :: timestamp
  deleted_at :: "timestamp option"

record cliente =
  c_id :: uuid
  usuario_portal_id :: "uuid option"
  c_updated_at :: timestamp
  c_updated_by :: uuid

record auth_user =
  a_id :: uuid
  a_email :: string

record db =
  usuarios :: "usuario list"
  clientes :: "cliente list"
  auth_users :: "auth_user list"

section \<open>The stored procedures of \<open>fix_auth_sync.sql\<close>\<close>

subsection \<open>\<open>clean_duplicate_usuarios\<close>\<close>

text \<open>
  \<open>ORDER BY created_at DESC\<close>: the rows by descending creation time. PostgreSQL leaves
  the order of rows with equal \<open>created_at\<close> open; the model fixes one such order.
\<close>

definition order_by_created_at_desc :: "usuario list \<Rightarrow> usuario list" where
  "order_by_created_at_desc rows = rev (sort_key created_at rows)"

text \<open>
  The subquery of the second \<open>DELETE\<close>:
  \<open>SELECT id FROM usuarios WHERE email = p_email AND deleted_at IS NULL
    ORDER BY created_at DESC LIMIT 1\<close>.
\<close>

definition newest_active_id :: "string \<Rightarrow> usuario list \<Rightarrow> uuid list" where
  "newest_active_id p_email tbl =
     map u_id (take 1 (order_by_created_at_desc
       (filter (\<lambda>u. u_email u = p_email \<and> deleted_at u = None) tbl)))"

text \<open>
  The procedure on the \<open>usuarios\<close> table: the first \<open>DELETE\<close> removes the soft-deleted
  rows of the email, the second one removes every row of the email whose id is not the
  one the subquery returns. The subquery reads the table as the first statement left it.
\<close>

definition clean_duplicate_usuarios :: "string \<Rightarrow> usuario list \<Rightarrow> usuario list" where
  "clean_duplicate_usuarios p_email tbl =
     (let tbl1 = filter (\<lambda>u. \<not> (u_email u = p_email \<and> deleted_at u \<noteq> None)) tbl;
          keep = newest_active_id p_email tbl1
      in filter (\<lambda>u. \<not> (u_email u = p_email \<and> u_id u \<notin> set keep)) tbl1)"

text \<open>Views used to state the properties: the rows of an email, and its active rows.\<close>

definition rows_of :: "string \<Rightarrow> usuario list \<Rightarrow> usuario list" where
  "rows_of e tbl = filter (\<lambda>u. u_email u = e) tbl"

definition active_of :: "string \<Rightarrow> usuario list \<Rightarrow> usuario list" where
  "active_of e tbl = filter (\<lambda>u. u_email u = e \<and> deleted_at u = None) tbl"

definition deleted_of :: "string \<Rightarrow> usuario list \<Rightarrow> usuario list" where
  "deleted_of e tbl = filter (\<lambda>u. u_email u = e \<and> deleted_at u \<noteq> None) tbl"

text \<open>The primary key of \<open>usuarios\<close>: no two rows share an id.\<close>

definition usuarios_pkey :: "usuario list \<Rightarrow> bool" where
  "usuarios_pkey tbl = distinct (map u_id tbl)"

text \<open>The table as the first \<open>DELETE\<close> of the procedure leaves it.\<close>

definition first_delete :: "string \<Rightarrow> usuario list \<Rightarrow> usuario list" where
  "first_delete e tbl = filter (\<lambda>u. \<not> (u_email u = e \<and> deleted_at u \<noteq> None)) tbl"

subsection \<open>\<open>sync_user_after_auth_creation\<close>\<close>

text \<open>
  An error raised by a statement: its \<open>SQLSTATE\<close> code and its \<open>SQLERRM\<close> text. A
  statement either raises (\<open>Inl\<close>) or returns the new database (\<open>Inr\<close>).
\<close>

record sql_error =
  sqlstate :: string
  sqlerrm :: string

text \<open>
  The \<open>INSERT\<close> raises \<open>unique_violation\<close> (\<open>23505\<close>) on a primary-key violation.
  Whatever else may raise while the row is inserted is the parameter \<open>chk\<close>: the
  constraints and triggers of the table declared outside this migration (a unique index
  on the email, a trigger whose \<open>ASSERT\<close> fails), or the cancellation of the query (a
  cancel request, a statement timeout). It answers \<open>Some err\<close> when \<open>err\<close> is raised. The
  new row takes \<open>created_at\<close> from the clock and a null \<open>deleted_at\<close>, the column
  defaults.
\<close>

type_synonym table_check = "usuario \<Rightarrow> usuario list \<Rightarrow> sql_error option"

definition insert_usuario :: "table_check \<Rightarrow> usuario \<Rightarrow> db \<Rightarrow> sql_error + db" where
  "insert_usuario chk row d =
     (if u_id row \<in> set (map u_id (usuarios d))
      then Inl \<lparr>sqlstate = ''23505'',
                sqlerrm = ''duplicate key value violates unique constraint usuarios_pkey''\<rparr>
      else case chk row (usuarios d) of
             Some err \<Rightarrow> Inl err
           | None \<Rightarrow> Inr (d\<lparr>usuarios := usuarios d @ [row]\<rparr>))"

text \<open>
  The \<open>UPDATE\<close> of \<open>clientes\<close> changes every row whose id is \<open>p_cliente_id\<close> (none, when
  there is no such row). The column \<open>usuario_portal_id\<close> references \<open>auth.users(id)\<close>, so
  changing a row raises \<open>foreign_key_violation\<close> (\<open>23503\<close>) when the identifier is not an
  authentication user.
\<close>

definition update_cliente :: "timestamp \<Rightarrow> uuid \<Rightarrow> uuid \<Rightarrow> db \<Rightarrow> sql_error + db" where
  "update_cliente now p_auth_user_id p_cliente_id d =
     (if (\<exists>c \<in> set (clientes d). c_id c = p_cliente_id)
         \<and> p_auth_user_id \<notin> set (map a_id (auth_users d))
      then Inl \<lparr>sqlstate = ''23503'',
                sqlerrm = ''insert or update on table clientes violates foreign key constraint''\<rparr>
      else Inr (d\<lparr>clientes :=
             map (\<lambda>c. if c_id c = p_cliente_id
                       then c\<lparr>usuario_portal_id := Some p_auth_user_id,
                              c_updated_at := now,
                              c_updated_by := p_auth_user_id\<rparr>
                       else c) (clientes d)\<rparr>))"

definition new_usuario :: "timestamp \<Rightarrow> uuid \<Rightarrow> string \<Rightarrow> string \<Rightarrow> usuario" where
  "new_usuario now p_auth_user_id p_email p_nome =
     \<lparr>u_id = p_auth_user_id, nome = p_nome, u_email = p_email,
      tipo_usuario = ''cliente'', tenant_id = p_auth_user_id,
      created_by = p_auth_user_id, updated_by = p_auth_user_id,
      created_at = now, deleted_at = None\<rparr>"

text \<open>The two statements of the block, in order; the first error ends the block.\<close>

definition sync_statements ::
  "timestamp \<Rightarrow> table_check \<Rightarrow> uuid \<Rightarrow> string \<Rightarrow> string \<Rightarrow> uuid \<Rightarrow> db \<Rightarrow> sql_error + db" where
  "sync_statements now chk p_auth_user_id p_email p_nome p_cliente_id d =
     (case insert_usuario chk (new_usuario now p_auth_user_id p_email p_nome) d of
        Inl err \<Rightarrow> Inl err
      | Inr d1 \<Rightarrow> update_cliente now p_auth_user_id p_cliente_id d1)"

text \<open>The JSON value the procedure returns.\<close>

record sync_json =
  js_success :: bool
  js_user_id :: "uuid option"
  js_message :: "string option"
  js_error :: "string option"

text \<open>
  \<open>EXCEPTION WHEN OTHERS\<close>: in PL/pgSQL the condition \<open>OTHERS\<close> matches every error but
  \<open>QUERY_CANCELED\<close> (\<open>SQLSTATE 57014\<close>) and \<open>ASSERT_FAILURE\<close> (\<open>P0004\<close>).
\<close>

definition when_others :: "sql_error \<Rightarrow> bool" where
  "when_others err = (sqlstate err \<noteq> ''57014'' \<and> sqlstate err \<noteq> ''P0004'')"

text \<open>
  The whole procedure. It returns its JSON value with the database it leaves (\<open>Inr\<close>),
  or ends with the error its handler does not trap (\<open>Inl\<close>; the caller's transaction
  is aborted and nothing is written). A trapped error undoes what the block did and
  gives the failure object; the texts are the source's, written without accents.
\<close>

definition sync_user_after_auth_creation ::
  "timestamp \<Rightarrow> table_check \<Rightarrow> uuid \<Rightarrow> string \<Rightarrow> string \<Rightarrow> uuid \<Rightarrow> db
     \<Rightarrow> sql_error + sync_json \<times> db" where
  "sync_user_after_auth_creation now chk p_auth_user_id p_email p_nome p_cliente_id d =
     (case sync_statements now chk p_auth_user_id p_email p_nome p_cliente_id d of
        Inr d' \<Rightarrow>
          Inr (\<lparr>js_success = True, js_user_id = Some p_auth_user_id,
                js_message = Some ''Usuario sincronizado com sucesso'', js_error = None\<rparr>, d')
      | Inl err \<Rightarrow>
          if when_others err
          then Inr (\<lparr>js_success = False, js_user_id = None, js_message = None,
                     js_error = Some (''Erro ao sincronizar usuario: '' @ sqlerrm err)\<rparr>, d)
          else Inl err)"

section \<open>The remote services as the client sees them\<close>

text \<open>
  What an awaited promise rejects with, and what \<open>throw\<close> throws: an \<open>Error\<close> with its
  message (the empty text also stands for a value whose \<open>message\<close> is missing), or
  \<open>null\<close>/\<open>undefined\<close>, a value no property can be read of.
\<close>

datatype thrown = Error string | Nullish

text \<open>
  Every remote call of \<open>portalAuth.ts\<close> is awaited in turn. A call either completes
  (the service ran it and answered), fails (the client receives an error object and the
  service changed nothing), or throws (the awaited promise rejects; the service changed
  nothing).
\<close>

record pg_error =
  err_code :: string
  err_message :: string

datatype outcome = Completes | Fails pg_error | Throws thrown

text \<open>
  The outcomes of the calls of one run, one field per call of the source, together with
  what the services decide on their own: the identifier the provider assigns to a new
  user (\<open>None\<close>: the answer carries no user), the database clock, and what else may
  raise while a profile row is inserted (the parameter \<open>chk\<close> of the procedure).
\<close>

record remote =
  rpc_clean :: outcome
  select_existing :: outcome
  createUser :: outcome
  assigned_user :: "uuid option"
  rpc_sync :: outcome
  deleteUser :: outcome
  select_verify :: outcome
  listUsers :: outcome
  select_public :: outcome
  clock :: timestamp
  usuarios_check :: table_check

text \<open>The requests sent, in order.\<close>

datatype call =
    RpcClean string
  | SelectByEmail string
  | CreateUser string string string uuid
  | RpcSync uuid string string uuid
  | DeleteUser uuid
  | SelectById uuid
  | ListUsers

record world =
  store :: db
  calls :: "call list"

definition sent :: "call \<Rightarrow> world \<Rightarrow> world" where
  "sent c w = w\<lparr>calls := calls w @ [c]\<rparr>"

text \<open>
  An awaited computation: it throws (\<open>Inl\<close>, the value thrown) or returns.
  \<open>throw new Error(m)\<close> is \<open>throw m\<close>.
\<close>

type_synonym 'a io = "world \<Rightarrow> (thrown + 'a) \<times> world"

definition return :: "'a \<Rightarrow> 'a io" where
  "return x w = (Inr x, w)"

definition throw :: "string \<Rightarrow> 'a io" where
  "throw m w = (Inl (Error m), w)"

definition await :: "'a io \<Rightarrow> ('a \<Rightarrow> 'b io) \<Rightarrow> 'b io" where
  "await m f w = (case m w of (Inl e, w') \<Rightarrow> (Inl e, w') | (Inr x, w') \<Rightarrow> f x w')"

text \<open>
  \<open>.single()\<close> of the REST client: the row when the query has exactly one row, otherwise
  no data and the error \<open>PGRST116\<close> (no row, or more than one).
\<close>

definition single :: "'a list \<Rightarrow> 'a option \<times> pg_error option" where
  "single rows =
     (case rows of
        [r] \<Rightarrow> (Some r, None)
      | _ \<Rightarrow> (None, Some \<lparr>err_code = ''PGRST116'',
                 err_message = ''JSON object requested, multiple (or no) rows returned''\<rparr>))"

definition rpc_clean_duplicate_usuarios :: "remote \<Rightarrow> string \<Rightarrow> (pg_error option) io" where
  "rpc_clean_duplicate_usuarios env p_email w =
     (let w1 = sent (RpcClean p_email) w in
      case rpc_clean env of
        Throws m \<Rightarrow> (Inl m, w1)
      | Fails e \<Rightarrow> (Inr (Some e), w1)
      | Completes \<Rightarrow>
          (Inr None, w1\<lparr>store := (store w1)\<lparr>usuarios :=
             clean_duplicate_usuarios p_email (usuarios (store w1))\<rparr>\<rparr>))"

text \<open>
  \<open>from('usuarios').select(..).eq('email', email).is('deleted_at', null).single()\<close>
\<close>

definition select_usuario_by_email ::
  "outcome \<Rightarrow> string \<Rightarrow> (usuario option \<times> pg_error option) io" where
  "select_usuario_by_email oc email w =
     (let w1 = sent (SelectByEmail email) w in
      case oc of
        Throws m \<Rightarrow> (Inl m, w1)
      | Fails e \<Rightarrow> (Inr (None, Some e), w1)
      | Completes \<Rightarrow>
          (Inr (single (filter (\<lambda>u. u_email u = email \<and> deleted_at u = None)
                  (usuarios (store w1)))), w1))"

text \<open>\<open>from('usuarios').select(..).eq('id', id).single()\<close>\<close>

definition select_usuario_by_id ::
  "outcome \<Rightarrow> uuid \<Rightarrow> (usuario option \<times> pg_error option) io" where
  "select_usuario_by_id oc i w =
     (let w1 = sent (SelectById i) w in
      case oc of
        Throws m \<Rightarrow> (Inl m, w1)
      | Fails e \<Rightarrow> (Inr (None, Some e), w1)
      | Completes \<Rightarrow>
          (Inr (single (filter (\<lambda>u. u_id u = i) (usuarios (store w1)))), w1))"

text \<open>
  Modelled from the spec: the authentication provider is an external service; the
  specification gives its interface, \<open>createUser\<close>, \<open>deleteUser\<close> and \<open>listUsers\<close>, over
  the identities it holds.
\<close>

definition auth_admin_createUser ::
  "remote \<Rightarrow> string \<Rightarrow> string \<Rightarrow> string \<Rightarrow> uuid \<Rightarrow> (uuid option \<times> pg_error option) io" where
  "auth_admin_createUser env email password nomeCliente clienteId w =
     (let w1 = sent (CreateUser email password nomeCliente clienteId) w in
      case createUser env of
        Throws m \<Rightarrow> (Inl m, w1)
      | Fails e \<Rightarrow> (Inr (None, Some e), w1)
      | Completes \<Rightarrow>
          (case assigned_user env of
             None \<Rightarrow> (Inr (None, None), w1)
           | Some i \<Rightarrow>
               (Inr (Some i, None),
                w1\<lparr>store := (store w1)\<lparr>auth_users :=
                  auth_users (store w1) @ [\<lparr>a_id = i, a_email = email\<rparr>]\<rparr>\<rparr>)))"

definition auth_admin_deleteUser :: "remote \<Rightarrow> uuid \<Rightarrow> (pg_error option) io" where
  "auth_admin_deleteUser env i w =
     (let w1 = sent (DeleteUser i) w in
      case deleteUser env of
        Throws m \<Rightarrow> (Inl m, w1)
      | Fails e \<Rightarrow> (Inr (Some e), w1)
      | Completes \<Rightarrow>
          (Inr None, w1\<lparr>store := (store w1)\<lparr>auth_users :=
             filter (\<lambda>a. a_id a \<noteq> i) (auth_users (store w1))\<rparr>\<rparr>))"

definition auth_admin_listUsers :: "remote \<Rightarrow> (auth_user list \<times> pg_error option) io" where
  "auth_admin_listUsers env w =
     (let w1 = sent ListUsers w in
      case listUsers env of
        Throws m \<Rightarrow> (Inl m, w1)
      | Fails e \<Rightarrow> (Inr ([], Some e), w1)
      | Completes \<Rightarrow> (Inr (auth_users (store w1), None), w1))"

text \<open>
  The error object the REST layer answers with when a procedure ends with an error: the
  \<open>SQLSTATE\<close> as its code, the \<open>SQLERRM\<close> as its message.
\<close>

definition pg_error_of :: "sql_error \<Rightarrow> pg_error" where
  "pg_error_of err = \<lparr>err_code = sqlstate err, err_message = sqlerrm err\<rparr>"

definition rpc_sync_user_after_auth_creation ::
  "remote \<Rightarrow> uuid \<Rightarrow> string \<Rightarrow> string \<Rightarrow> uuid \<Rightarrow> (sync_json option \<times> pg_error option) io" where
  "rpc_sync_user_after_auth_creation env p_auth_user_id p_email p_nome p_cliente_id w =
     (let w1 = sent (RpcSync p_auth_user_id p_email p_nome p_cliente_id) w in
      case rpc_sync env of
        Throws m \<Rightarrow> (Inl m, w1)
      | Fails e \<Rightarrow> (Inr (None, Some e), w1)
      | Completes \<Rightarrow>
          (case sync_user_after_auth_creation (clock env) (usuarios_check env)
                  p_auth_user_id p_email p_nome p_cliente_id (store w1) of
             Inr (j, d') \<Rightarrow> (Inr (Some j, None), w1\<lparr>store := d'\<rparr>)
           | Inl err \<Rightarrow> (Inr (None, Some (pg_error_of err)), w1)))"

section \<open>\<open>portalAuth.ts\<close>\<close>

record CreatePortalUserParams =
  email :: string
  password :: string
  nomeCliente :: string
  clienteId :: uuid

record CreatePortalUserResponse =
  success :: bool
  error :: "string option"
  message :: "string option"
  userId :: "uuid option"

text \<open>
  The message texts of the source are written here without their accents.
\<close>

text \<open>
  The compensation of steps 4 and 5:
  \<open>try { await supabase.auth.admin.deleteUser(authUserId) } catch (deleteError) { .. }\<close>.
  Neither an error object in the answer nor a rejected promise reaches the caller.
\<close>

definition try_deleteUser :: "remote \<Rightarrow> uuid \<Rightarrow> unit io" where
  "try_deleteUser env authUserId w =
     (case auth_admin_deleteUser env authUserId w of (_, w') \<Rightarrow> (Inr (), w'))"

text \<open>
  From step 5 on: the re-read of the profile by its id, and the success value.
\<close>

definition verify_and_return :: "remote \<Rightarrow> uuid \<Rightarrow> CreatePortalUserResponse io" where
  "verify_and_return env authUserId =
     await (select_usuario_by_id (select_verify env) authUserId) (\<lambda>(verifyUser, verifyError).
       if verifyError \<noteq> None \<or> verifyUser = None
       then throw ''Usuario criado mas nao encontrado na verificacao''
       else return \<lparr>success = True, error = None,
              message = Some ''Portal criado com sucesso! O cliente pode agora fazer login.'',
              userId = Some authUserId\<rparr>)"

text \<open>
  Step 4 and the two compensating branches. \<open>syncResult?.error || '..'\<close> takes the
  default text when the error text is absent or empty.
\<close>

definition sync_and_verify ::
  "remote \<Rightarrow> CreatePortalUserParams \<Rightarrow> uuid \<Rightarrow> CreatePortalUserResponse io" where
  "sync_and_verify env p authUserId =
     await (rpc_sync_user_after_auth_creation env authUserId (email p) (nomeCliente p)
              (clienteId p)) (\<lambda>(syncResult, syncError).
       case syncError of
         Some e \<Rightarrow>
           await (try_deleteUser env authUserId) (\<lambda>_.
             throw (''Erro ao sincronizar usuario: '' @ err_message e))
       | None \<Rightarrow>
           if \<not> (case syncResult of None \<Rightarrow> False | Some j \<Rightarrow> js_success j)
           then await (try_deleteUser env authUserId) (\<lambda>_.
                  throw (case (case syncResult of None \<Rightarrow> None | Some j \<Rightarrow> js_error j) of
                           None \<Rightarrow> ''Erro desconhecido na sincronizacao''
                         | Some m \<Rightarrow> if m = [] then ''Erro desconhecido na sincronizacao''
                                      else m))
           else verify_and_return env authUserId)"

text \<open>Step 3 and what follows it.\<close>

definition create_and_sync ::
  "remote \<Rightarrow> CreatePortalUserParams \<Rightarrow> CreatePortalUserResponse io" where
  "create_and_sync env p =
     await (auth_admin_createUser env (email p) (password p) (nomeCliente p) (clienteId p))
       (\<lambda>(authUser, authError).
       case authError of
         Some e \<Rightarrow> throw (''Erro na autenticacao: '' @ err_message e)
       | None \<Rightarrow>
           (case authUser of
              None \<Rightarrow> throw ''Usuario nao foi criado corretamente''
            | Some authUserId \<Rightarrow> sync_and_verify env p authUserId))"

text \<open>
  The body of the \<open>try\<close> block of \<open>createPortalUser\<close>. An error of the clean-up call is
  logged and the run goes on.
\<close>

definition createPortalUser_try ::
  "remote \<Rightarrow> CreatePortalUserParams \<Rightarrow> CreatePortalUserResponse io" where
  "createPortalUser_try env p =
     await (rpc_clean_duplicate_usuarios env (email p)) (\<lambda>cleanError.
     await (select_usuario_by_email (select_existing env) (email p))
       (\<lambda>(existingUser, checkError).
       if (case checkError of None \<Rightarrow> False | Some e \<Rightarrow> err_code e \<noteq> ''PGRST116'')
       then throw (''Erro ao verificar usuario existente: '' @
                    (case checkError of None \<Rightarrow> [] | Some e \<Rightarrow> err_message e))
       else if existingUser \<noteq> None
       then return \<lparr>success = False,
              error = Some ''Este email ja esta cadastrado no sistema'',
              message = None, userId = None\<rparr>
       else create_and_sync env p))"

text \<open>
  \<open>createPortalUser\<close>: the \<open>try\<close> block under its \<open>catch (error: any)\<close>. The handler
  reads \<open>error.message\<close>: for an \<open>Error\<close> it returns the failure value, with the default
  text when the message is empty (\<open>error.message || '..'\<close>); for \<open>null\<close> or \<open>undefined\<close>
  the read itself throws a \<open>TypeError\<close>, which leaves the function. So the function
  returns a response (\<open>Inr\<close>) or throws (\<open>Inl\<close>).
\<close>

definition createPortalUser ::
  "remote \<Rightarrow> CreatePortalUserParams \<Rightarrow> CreatePortalUserResponse io" where
  "createPortalUser env p w =
     (case createPortalUser_try env p w of
        (Inr r, w') \<Rightarrow> (Inr r, w')
      | (Inl (Error m), w') \<Rightarrow>
          (Inr \<lparr>success = False,
                error = Some (if m = [] then ''Erro interno do servidor'' else m),
                message = None, userId = None\<rparr>, w')
      | (Inl Nullish, w') \<Rightarrow>
          (Inl (Error ''Cannot read properties of null (reading message)''), w'))"

subsection \<open>\<open>testUserSync\<close>\<close>

record SyncReport =
  authId :: uuid
  publicId :: uuid
  idsMatch :: bool

text \<open>
  The body of the \<open>try\<close> block; \<open>None\<close> is the bare \<open>return\<close> (the caller receives
  \<open>undefined\<close>). Reading a field of a missing row throws. The \<open>catch\<close> of this function
  only logs what was thrown.
\<close>

definition testUserSync_try :: "remote \<Rightarrow> string \<Rightarrow> (SyncReport option) io" where
  "testUserSync_try env email_in =
     await (auth_admin_listUsers env) (\<lambda>(authUsers, authError).
       if authError \<noteq> None then return None
       else case find (\<lambda>u. a_email u = email_in) authUsers of
              None \<Rightarrow> return None
            | Some authUser \<Rightarrow>
                await (select_usuario_by_email (select_public env) email_in)
                  (\<lambda>(publicUser, publicError).
                  if publicError \<noteq> None then return None
                  else case publicUser of
                         None \<Rightarrow> throw ''Cannot read properties of null''
                       | Some publicUser \<Rightarrow>
                           return (Some \<lparr>authId = a_id authUser,
                                    publicId = u_id publicUser,
                                    idsMatch = (a_id authUser = u_id publicUser)\<rparr>)))"

definition testUserSync :: "remote \<Rightarrow> string \<Rightarrow> world \<Rightarrow> SyncReport option \<times> world" where
  "testUserSync env email_in w =
     (case testUserSync_try env email_in w of
        (Inr r, w') \<Rightarrow> (r, w')
      | (Inl m, w') \<Rightarrow> (None, w'))"

section \<open>Vocabulary of the properties\<close>

text \<open>
  The \<open>usuarios\<close> table once step 1 is over: cleaned when the call completed, untouched
  when it failed.
\<close>

definition usuarios_after_step1 :: "remote \<Rightarrow> CreatePortalUserParams \<Rightarrow> world \<Rightarrow> usuario list" where
  "usuarios_after_step1 env p w =
     (case rpc_clean env of
        Completes \<Rightarrow> clean_duplicate_usuarios (email p) (usuarios (store w))
      | _ \<Rightarrow> usuarios (store w))"

text \<open>
  The run gets past the existence check of step 2: the clean-up call did not throw, and
  the check found no single active profile (its query answered with no row or several,
  or failed with the code the source lets through).
\<close>

definition passes_check :: "remote \<Rightarrow> CreatePortalUserParams \<Rightarrow> world \<Rightarrow> bool" where
  "passes_check env p w =
     ((case rpc_clean env of Throws m \<Rightarrow> False | _ \<Rightarrow> True) \<and>
      (case select_existing env of
         Completes \<Rightarrow> length (active_of (email p) (usuarios_after_step1 env p w)) \<noteq> 1
       | Fails e \<Rightarrow> err_code e = ''PGRST116''
       | Throws m \<Rightarrow> False))"

definition world_at_step3 :: "remote \<Rightarrow> CreatePortalUserParams \<Rightarrow> world \<Rightarrow> world" where
  "world_at_step3 env p w =
     \<lparr>store = (store w)\<lparr>usuarios := usuarios_after_step1 env p w\<rparr>,
      calls = calls w @ [RpcClean (email p), SelectByEmail (email p)]\<rparr>"

text \<open>The run reaches step 4 with the identity \<open>X\<close> just created by the provider.\<close>

definition reaches_step4 :: "remote \<Rightarrow> CreatePortalUserParams \<Rightarrow> world \<Rightarrow> uuid \<Rightarrow> bool" where
  "reaches_step4 env p w X =
     (passes_check env p w \<and> createUser env = Completes \<and> assigned_user env = Some X)"

definition world_at_step4 :: "remote \<Rightarrow> CreatePortalUserParams \<Rightarrow> world \<Rightarrow> uuid \<Rightarrow> world" where
  "world_at_step4 env p w X =
     \<lparr>store = (store w)\<lparr>usuarios := usuarios_after_step1 env p w,
                         auth_users := auth_users (store w) @ [\<lparr>a_id = X, a_email = email p\<rparr>]\<rparr>,
      calls = calls w @ [RpcClean (email p), SelectByEmail (email p),
                         CreateUser (email p) (password p) (nomeCliente p) (clienteId p)]\<rparr>"

text \<open>What the synchronization procedure answers and leaves when called at step 4.\<close>

definition sync_at_step4 ::
  "remote \<Rightarrow> CreatePortalUserParams \<Rightarrow> world \<Rightarrow> uuid \<Rightarrow> sql_error + sync_json \<times> db" where
  "sync_at_step4 env p w X =
     sync_user_after_auth_creation (clock env) (usuarios_check env) X (email p)
       (nomeCliente p) (clienteId p) (store (world_at_step4 env p w X))"

text \<open>The failure value of step 2.\<close>

definition DuplicateEmail :: CreatePortalUserResponse where
  "DuplicateEmail = \<lparr>success = False,
      error = Some ''Este email ja esta cadastrado no sistema'', message = None, userId = None\<rparr>"

section \<open>Example data\<close>

definition ex_row :: "uuid \<Rightarrow> string \<Rightarrow> timestamp \<Rightarrow> timestamp option \<Rightarrow> usuario" where
  "ex_row i e c d =
     \<lparr>u_id = i, nome = ''Ana'', u_email = e, tipo_usuario = ''cliente'',
      tenant_id = i, created_by = i, updated_by = i, created_at = c, deleted_at = d\<rparr>"

definition ex_tbl :: "usuario list" where
  "ex_tbl =
     [ex_row ''u1'' ''a@b.com'' 10 None, ex_row ''u2'' ''a@b.com'' 30 None,
      ex_row ''u3'' ''a@b.com'' 40 (Some 50), ex_row ''u4'' ''x@y.com'' 5 (Some 6),
      ex_row ''u5'' ''a@b.com'' 20 None]"

definition all_complete :: remote where
  "all_complete =
     \<lparr>rpc_clean = Completes, select_existing = Completes, createUser = Completes,
      assigned_user = Some ''X'', rpc_sync = Completes, deleteUser = Completes,
      select_verify = Completes, listUsers = Completes, select_public = Completes,
      clock = 100, usuarios_check = (\<lambda>row tbl. None)\<rparr>"

definition ex_params :: CreatePortalUserParams where
  "ex_params = \<lparr>email = ''a@b.com'', password = ''secret1'', nomeCliente = ''Ana'',
                clienteId = ''c-1''\<rparr>"

definition ex_cliente :: cliente where
  "ex_cliente = \<lparr>c_id = ''c-1'', usuario_portal_id = None, c_updated_at = 1,
                 c_updated_by = ''admin''\<rparr>"

definition ex_world :: world where
  "ex_world = \<lparr>store = \<lparr>usuarios = [], clientes = [ex_cliente], auth_users = []\<rparr>,
               calls = []\<rparr>"

definition ex_cleaned :: "usuario list" where
  "ex_cleaned = [ex_row ''u2'' ''a@b.com'' 30 None, ex_row ''u4'' ''x@y.com'' 5 (Some 6)]"

text \<open>Errors and outcomes used in the examples.\<close>

definition unavailable :: pg_error where
  "unavailable = \<lparr>err_code = ''503'', err_message = ''service unavailable''\<rparr>"

definition sync_rejected :: remote where
  "sync_rejected = all_complete\<lparr>rpc_sync := Fails unavailable\<rparr>"

definition sync_and_delete_rejected :: remote where
  "sync_and_delete_rejected = all_complete\<lparr>rpc_sync := Fails unavailable,
                                           deleteUser := Fails unavailable\<rparr>"

definition stale_world :: world where
  "stale_world = \<lparr>store = \<lparr>usuarios = [ex_row ''X'' ''old@b.com'' 7 None],
                           clientes = [ex_cliente], auth_users = []\<rparr>, calls = []\<rparr>"

definition dup_world :: world where
  "dup_world = \<lparr>store = \<lparr>usuarios = [ex_row ''u1'' ''a@b.com'' 10 None,
                                      ex_row ''u3'' ''a@b.com'' 40 (Some 50)],
                         clientes = [ex_cliente], auth_users = []\<rparr>, calls = []\<rparr>"

definition taken_world :: world where
  "taken_world = \<lparr>store = \<lparr>usuarios = [ex_row ''u1'' ''a@b.com'' 10 None],
                         clientes = [ex_cliente], auth_users = []\<rparr>, calls = []\<rparr>"

definition already_registered :: pg_error where
  "already_registered = \<lparr>err_code = ''email_exists'', err_message = ''User already registered''\<rparr>"

definition create_rejected :: remote where
  "create_rejected = all_complete\<lparr>createUser := Fails already_registered\<rparr>"


definition no_such_cliente :: CreatePortalUserParams where
  "no_such_cliente = ex_params\<lparr>clienteId := ''c-404''\<rparr>"

definition twin_world :: world where
  "twin_world = \<lparr>store = \<lparr>usuarios = [ex_row ''X'' ''a@b.com'' 10 None,
                                       ex_row ''Y'' ''a@b.com'' 20 None],
                          clientes = [], auth_users = [\<lparr>a_id = ''X'', a_email = ''a@b.com''\<rparr>]\<rparr>,
                  calls = []\<rparr>"

definition synced_world :: world where
  "synced_world = \<lparr>store = \<lparr>usuarios = [ex_row ''X'' ''a@b.com'' 10 None],
                          clientes = [], auth_users = [\<lparr>a_id = ''X'', a_email = ''a@b.com''\<rparr>]\<rparr>,
                  calls = []\<rparr>"

definition mismatched_world :: world where
  "mismatched_world = \<lparr>store = \<lparr>usuarios = [ex_row ''Y'' ''a@b.com'' 10 None],
                          clientes = [], auth_users = [\<lparr>a_id = ''X'', a_email = ''a@b.com''\<rparr>]\<rparr>,
                  calls = []\<rparr>"

definition clean_rejected :: remote where
  "clean_rejected = all_complete\<lparr>rpc_clean := Fails unavailable\<rparr>"

definition two_active_world :: world where
  "two_active_world = \<lparr>store = \<lparr>usuarios = [ex_row ''u1'' ''a@b.com'' 10 None,
                                            ex_row ''u2'' ''a@b.com'' 30 None],
                               clientes = [ex_cliente], auth_users = []\<rparr>, calls = []\<rparr>"

definition clean_throws :: remote where
  "clean_throws = all_complete\<lparr>rpc_clean := Throws (Error ''Failed to fetch'')\<rparr>"

definition delete_rejects_null :: remote where
  "delete_rejects_null = all_complete\<lparr>rpc_sync := Fails unavailable,
                                      deleteUser := Throws Nullish\<rparr>"

definition check_rejects_null :: remote where
  "check_rejects_null = all_complete\<lparr>select_existing := Throws Nullish\<rparr>"

definition statement_timeout :: sql_error where
  "statement_timeout = \<lparr>sqlstate = ''57014'',
                         sqlerrm = ''canceling statement due to statement timeout''\<rparr>"

definition timing_out :: table_check where
  "timing_out row tbl = Some statement_timeout"

definition sync_times_out :: remote where
  "sync_times_out = all_complete\<lparr>usuarios_check := timing_out\<rparr>"

definition failure_of :: "string \<Rightarrow> CreatePortalUserResponse" where
  "failure_of m = \<lparr>success = False, error = Some m, message = None, userId = None\<rparr>"

definition created :: CreatePortalUserResponse where
  "created = \<lparr>success = True, error = None,
      message = Some ''Portal criado com sucesso! O cliente pode agora fazer login.'',
      userId = Some ''X''\<rparr>"

definition other_profile_world :: world where
  "other_profile_world = \<lparr>store = \<lparr>usuarios = [ex_row ''u9'' ''a@b.com'' 3 (Some 4)],
                                  clientes = [ex_cliente], auth_users = []\<rparr>, calls = []\<rparr>"

definition email_taken :: table_check where
  "email_taken row tbl =
     (if u_email row \<in> set (map u_email tbl)
      then Some \<lparr>sqlstate = ''23505'',
                  sqlerrm = ''duplicate key value violates unique constraint usuarios_email_key''\<rparr>
      else None)"

section \<open>Properties of \<open>clean_duplicate_usuarios\<close>\<close>

lemma sorted_le_last: "sorted xs \<Longrightarrow> (x::nat) \<in> set xs \<Longrightarrow> x \<le> last xs"
  by (induction xs) auto

lemma top1_newest:
  assumes "rows \<noteq> []"
  shows "\<exists>m \<in> set rows. take 1 (order_by_created_at_desc rows) = [m]
           \<and> (\<forall>a \<in> set rows. created_at a \<le> created_at m)"
proof -
  let ?s = "sort_key created_at rows"
  have ne: "?s \<noteq> []" using assms by (metis length_sort length_0_conv)
  have srt: "sorted (map created_at ?s)" by simp
  have mem: "last ?s \<in> set rows" using ne last_in_set by fastforce
  have top: "take 1 (order_by_created_at_desc rows) = [last ?s]"
    using ne by (simp add: order_by_created_at_desc_def take_Suc hd_rev)
  have "\<forall>a \<in> set rows. created_at a \<le> created_at (last ?s)"
  proof
    fix a assume "a \<in> set rows"
    then have "created_at a \<in> set (map created_at ?s)" by simp
    then have "created_at a \<le> last (map created_at ?s)"
      using srt sorted_le_last by blast
    then show "created_at a \<le> created_at (last ?s)"
      using ne by (simp add: last_map)
  qed
  with mem top show ?thesis by blast
qed

lemma newest_active_id_empty:
  "active_of e tbl = [] \<Longrightarrow> newest_active_id e tbl = []"
  by (simp add: newest_active_id_def active_of_def order_by_created_at_desc_def)

lemma newest_active_id_top:
  assumes "active_of e tbl \<noteq> []"
  shows "\<exists>m \<in> set (active_of e tbl). newest_active_id e tbl = [u_id m]
           \<and> (\<forall>a \<in> set (active_of e tbl). created_at a \<le> created_at m)"
  using top1_newest [OF assms] by (auto simp: newest_active_id_def active_of_def)

lemma filter_key_single:
  "distinct (map f xs) \<Longrightarrow> m \<in> set xs \<Longrightarrow> P m \<Longrightarrow>
     filter (\<lambda>u. P u \<and> f u = f m) xs = [m]"
proof (induction xs)
  case Nil
  then show ?case by simp
next
  case (Cons x xs)
  show ?case
  proof (cases "x = m")
    case True
    have "filter (\<lambda>u. P u \<and> f u = f m) xs = []"
      using Cons.prems(1) True by (auto simp: filter_empty_conv image_iff)
    with True Cons.prems(3) show ?thesis by simp
  next
    case False
    with Cons.prems have "m \<in> set xs" "f x \<noteq> f m" by auto
    with Cons show ?thesis by simp
  qed
qed

lemma active_first_delete: "active_of e (first_delete e tbl) = active_of e tbl"
  by (auto simp: active_of_def first_delete_def intro: filter_cong)

lemma clean_unfold:
  "clean_duplicate_usuarios e tbl =
     filter (\<lambda>u. \<not> (u_email u = e \<and> u_id u \<notin> set (newest_active_id e (first_delete e tbl))))
       (first_delete e tbl)"
  by (simp add: clean_duplicate_usuarios_def first_delete_def Let_def)

lemma newest_first_delete: "newest_active_id e (first_delete e tbl) = newest_active_id e tbl"
  using active_first_delete [of e tbl]
  by (simp add: newest_active_id_def active_of_def)

lemma rows_clean:
  "rows_of e (clean_duplicate_usuarios e tbl) =
     filter (\<lambda>u. (u_email u = e \<and> deleted_at u = None) \<and> u_id u \<in> set (newest_active_id e tbl)) tbl"
  unfolding rows_of_def clean_unfold newest_first_delete
  by (auto simp: first_delete_def intro: filter_cong)

lemma rows_clean_other:
  "e' \<noteq> e \<Longrightarrow> rows_of e' (clean_duplicate_usuarios e tbl) = rows_of e' tbl"
  by (auto simp: rows_of_def clean_unfold first_delete_def intro: filter_cong)

lemma deleted_clean: "deleted_of e (clean_duplicate_usuarios e tbl) = []"
  by (auto simp: deleted_of_def clean_unfold first_delete_def filter_empty_conv)

lemma active_rows_clean:
  "active_of e (clean_duplicate_usuarios e tbl) = rows_of e (clean_duplicate_usuarios e tbl)"
  by (auto simp: active_of_def rows_of_def clean_unfold first_delete_def intro: filter_cong)

lemma rows_clean_none:
  "active_of e tbl = [] \<Longrightarrow> rows_of e (clean_duplicate_usuarios e tbl) = []"
  by (simp add: rows_clean newest_active_id_empty)

lemma rows_clean_some:
  assumes pk: "usuarios_pkey tbl" and ne: "active_of e tbl \<noteq> []"
  shows "\<exists>m \<in> set (active_of e tbl). rows_of e (clean_duplicate_usuarios e tbl) = [m]
           \<and> (\<forall>a \<in> set (active_of e tbl). created_at a \<le> created_at m)"
proof -
  from newest_active_id_top [OF ne] obtain m where
    m: "m \<in> set (active_of e tbl)" "newest_active_id e tbl = [u_id m]"
       "\<forall>a \<in> set (active_of e tbl). created_at a \<le> created_at m" by blast
  from m(1) have mt: "m \<in> set tbl" "u_email m = e \<and> deleted_at m = None"
    by (auto simp: active_of_def)
  have "rows_of e (clean_duplicate_usuarios e tbl) = [m]"
    using filter_key_single [of u_id tbl m "\<lambda>u. u_email u = e \<and> deleted_at u = None"] pk mt
    by (simp add: rows_clean m(2) usuarios_pkey_def)
  with m show ?thesis by blast
qed

text \<open>
  C2. On a table that respects its primary key, after \<open>clean_duplicate_usuarios e\<close> no
  soft-deleted row of the email \<open>e\<close> is left and at most one active row of \<open>e\<close> is left.
  When the email had active rows, the rows of \<open>e\<close> that remain are exactly one row \<open>m\<close>,
  which was an active row of \<open>e\<close> and was created no earlier than any other active row of
  \<open>e\<close>. When the email had no or one active row, exactly those rows remain. The rows of
  every other email are untouched.
\<close>

theorem clean_duplicate_usuarios_keeps_newest:
  assumes "usuarios_pkey tbl"
  shows "deleted_of e (clean_duplicate_usuarios e tbl) = [] \<and>
         length (active_of e (clean_duplicate_usuarios e tbl)) \<le> 1 \<and>
         (active_of e tbl \<noteq> [] \<longrightarrow>
            (\<exists>m \<in> set (active_of e tbl).
               (\<forall>a \<in> set (active_of e tbl). created_at a \<le> created_at m) \<and>
               rows_of e (clean_duplicate_usuarios e tbl) = [m])) \<and>
         (length (active_of e tbl) \<le> 1 \<longrightarrow>
            rows_of e (clean_duplicate_usuarios e tbl) = active_of e tbl) \<and>
         (\<forall>e'. e' \<noteq> e \<longrightarrow> rows_of e' (clean_duplicate_usuarios e tbl) = rows_of e' tbl)"
proof (intro conjI)
  show "deleted_of e (clean_duplicate_usuarios e tbl) = []" by (rule deleted_clean)
  show "length (active_of e (clean_duplicate_usuarios e tbl)) \<le> 1"
  proof (cases "active_of e tbl = []")
    case True
    then show ?thesis by (simp add: active_rows_clean rows_clean_none)
  next
    case False
    from rows_clean_some [OF assms False] show ?thesis by (auto simp: active_rows_clean)
  qed
  show "active_of e tbl \<noteq> [] \<longrightarrow>
            (\<exists>m \<in> set (active_of e tbl).
               (\<forall>a \<in> set (active_of e tbl). created_at a \<le> created_at m) \<and>
               rows_of e (clean_duplicate_usuarios e tbl) = [m])"
    using rows_clean_some [OF assms] by blast
  show "length (active_of e tbl) \<le> 1 \<longrightarrow>
            rows_of e (clean_duplicate_usuarios e tbl) = active_of e tbl"
  proof
    assume le: "length (active_of e tbl) \<le> 1"
    show "rows_of e (clean_duplicate_usuarios e tbl) = active_of e tbl"
    proof (cases "active_of e tbl")
      case Nil
      then show ?thesis by (simp add: rows_clean_none)
    next
      case (Cons r rs)
      with le have one: "active_of e tbl = [r]" by simp
      then have "active_of e tbl \<noteq> []" by simp
      from rows_clean_some [OF assms this] one show ?thesis by auto
    qed
  qed
  show "\<forall>e'. e' \<noteq> e \<longrightarrow> rows_of e' (clean_duplicate_usuarios e tbl) = rows_of e' tbl"
    by (simp add: rows_clean_other)
qed

lemma ex_tbl_cleaned: "clean_duplicate_usuarios ''a@b.com'' ex_tbl = ex_cleaned"
  by code_simp

theorem clean_duplicate_usuarios_keeps_newest_witness:
  "usuarios_pkey ex_tbl \<and> active_of ''a@b.com'' ex_tbl \<noteq> [] \<and>
   deleted_of ''a@b.com'' (clean_duplicate_usuarios ''a@b.com'' ex_tbl) = [] \<and>
   rows_of ''a@b.com'' (clean_duplicate_usuarios ''a@b.com'' ex_tbl)
     = [ex_row ''u2'' ''a@b.com'' 30 None] \<and>
   rows_of ''x@y.com'' (clean_duplicate_usuarios ''a@b.com'' ex_tbl)
     = rows_of ''x@y.com'' ex_tbl"
proof -
  have pk: "usuarios_pkey ex_tbl"
    by (simp add: usuarios_pkey_def ex_tbl_def ex_row_def)
  have r: "rows_of ''a@b.com'' (clean_duplicate_usuarios ''a@b.com'' ex_tbl)
             = [ex_row ''u2'' ''a@b.com'' 30 None]"
    by (simp add: ex_tbl_cleaned ex_cleaned_def rows_of_def ex_row_def)
  have a: "active_of ''a@b.com'' ex_tbl \<noteq> []"
    by (simp add: active_of_def ex_tbl_def ex_row_def)
  from clean_duplicate_usuarios_keeps_newest [OF pk, of "''a@b.com''"] pk r a
  show ?thesis by simp
qed

lemma clean_noop:
  assumes nd: "\<forall>u \<in> set tbl. u_email u = e \<longrightarrow> deleted_at u = None"
      and same: "\<forall>u \<in> set tbl. \<forall>v \<in> set tbl. u_email u = e \<longrightarrow> u_email v = e \<longrightarrow> u_id u = u_id v"
  shows "clean_duplicate_usuarios e tbl = tbl"
proof -
  have fd: "first_delete e tbl = tbl"
    using nd by (simp add: first_delete_def)
  show ?thesis
  proof (cases "active_of e tbl = []")
    case True
    then have "\<forall>u \<in> set tbl. u_email u \<noteq> e"
      using nd by (auto simp: active_of_def filter_empty_conv)
    then show ?thesis by (simp add: clean_unfold fd)
  next
    case False
    from newest_active_id_top [OF False] obtain m where
      m: "m \<in> set (active_of e tbl)" "newest_active_id e tbl = [u_id m]" by blast
    from m(1) have "m \<in> set tbl" "u_email m = e" by (auto simp: active_of_def)
    with same have "\<forall>u \<in> set tbl. u_email u = e \<longrightarrow> u_id u = u_id m" by blast
    then show ?thesis by (simp add: clean_unfold fd m(2))
  qed
qed

lemma newest_active_id_le1: "length (newest_active_id e tbl) \<le> 1"
  by (simp add: newest_active_id_def)

lemma in_short_list: "length ks \<le> 1 \<Longrightarrow> a \<in> set ks \<Longrightarrow> b \<in> set ks \<Longrightarrow> a = b"
  by (cases ks) auto

lemma filter_le1_unique:
  "length (filter P xs) \<le> 1 \<Longrightarrow> x \<in> set xs \<Longrightarrow> y \<in> set xs \<Longrightarrow> P x \<Longrightarrow> P y \<Longrightarrow> x = y"
proof -
  assume a: "length (filter P xs) \<le> 1" "x \<in> set xs" "y \<in> set xs" "P x" "P y"
  then have "x \<in> set (filter P xs)" "y \<in> set (filter P xs)" by auto
  with a(1) show "x = y" by (rule in_short_list)
qed

text \<open>
  C7. \<open>clean_duplicate_usuarios\<close> is idempotent: on every table and for every email, a
  second run leaves what the first run left. In particular a call changes nothing on a
  table where the email has nothing to clean, that is no soft-deleted row and at most one
  row. (A lone soft-deleted row of the email is something to clean: the first \<open>DELETE\<close>
  removes it.)
\<close>

theorem clean_duplicate_usuarios_idempotent:
  "clean_duplicate_usuarios e (clean_duplicate_usuarios e tbl) = clean_duplicate_usuarios e tbl \<and>
   (deleted_of e tbl = [] \<and> length (rows_of e tbl) \<le> 1 \<longrightarrow> clean_duplicate_usuarios e tbl = tbl)"
proof
  let ?t = "clean_duplicate_usuarios e tbl"
  have nd: "\<forall>u \<in> set ?t. u_email u = e \<longrightarrow> deleted_at u = None"
    by (auto simp: clean_unfold first_delete_def)
  have "\<forall>u \<in> set ?t. u_email u = e \<longrightarrow> u_id u \<in> set (newest_active_id e tbl)"
    by (auto simp: clean_unfold newest_first_delete)
  then have same: "\<forall>u \<in> set ?t. \<forall>v \<in> set ?t. u_email u = e \<longrightarrow> u_email v = e \<longrightarrow> u_id u = u_id v"
    using in_short_list [OF newest_active_id_le1 [of e tbl]] by blast
  show "clean_duplicate_usuarios e ?t = ?t" by (rule clean_noop [OF nd same])
  show "deleted_of e tbl = [] \<and> length (rows_of e tbl) \<le> 1 \<longrightarrow> clean_duplicate_usuarios e tbl = tbl"
  proof
    assume h: "deleted_of e tbl = [] \<and> length (rows_of e tbl) \<le> 1"
    then have nd: "\<forall>u \<in> set tbl. u_email u = e \<longrightarrow> deleted_at u = None"
      by (auto simp: deleted_of_def filter_empty_conv)
    have "\<forall>u \<in> set tbl. \<forall>v \<in> set tbl. u_email u = e \<longrightarrow> u_email v = e \<longrightarrow> u = v"
      using h filter_le1_unique [of "\<lambda>u. u_email u = e" tbl] by (auto simp: rows_of_def)
    then have "\<forall>u \<in> set tbl. \<forall>v \<in> set tbl. u_email u = e \<longrightarrow> u_email v = e \<longrightarrow> u_id u = u_id v"
      by blast
    with nd show "clean_duplicate_usuarios e tbl = tbl" by (rule clean_noop)
  qed
qed

theorem clean_duplicate_usuarios_idempotent_witness:
  "deleted_of ''a@b.com'' ex_cleaned = [] \<and> length (rows_of ''a@b.com'' ex_cleaned) \<le> 1 \<and>
   clean_duplicate_usuarios ''a@b.com'' ex_cleaned = ex_cleaned \<and>
   clean_duplicate_usuarios ''a@b.com'' (clean_duplicate_usuarios ''a@b.com'' ex_tbl)
     = clean_duplicate_usuarios ''a@b.com'' ex_tbl"
proof -
  have d: "deleted_of ''a@b.com'' ex_cleaned = []"
    by (simp add: deleted_of_def ex_cleaned_def ex_row_def)
  have l: "length (rows_of ''a@b.com'' ex_cleaned) \<le> 1"
    by (simp add: rows_of_def ex_cleaned_def ex_row_def)
  from clean_duplicate_usuarios_idempotent [of "''a@b.com''" ex_cleaned]
       clean_duplicate_usuarios_idempotent [of "''a@b.com''" ex_tbl] d l
  show ?thesis by simp
qed

section \<open>Properties of \<open>sync_user_after_auth_creation\<close>\<close>

lemma sync_raises:
  "sync_statements now chk X e n c d = Inl err \<Longrightarrow> when_others err \<Longrightarrow>
     sync_user_after_auth_creation now chk X e n c d =
       Inr (\<lparr>js_success = False, js_user_id = None, js_message = None,
             js_error = Some (''Erro ao sincronizar usuario: '' @ sqlerrm err)\<rparr>, d)"
  by (simp add: sync_user_after_auth_creation_def)

lemma sync_escapes:
  "sync_statements now chk X e n c d = Inl err \<Longrightarrow> \<not> when_others err \<Longrightarrow>
     sync_user_after_auth_creation now chk X e n c d = Inl err"
  by (simp add: sync_user_after_auth_creation_def)

lemma sync_commits:
  "sync_statements now chk X e n c d = Inr d' \<Longrightarrow>
     sync_user_after_auth_creation now chk X e n c d =
       Inr (\<lparr>js_success = True, js_user_id = Some X,
             js_message = Some ''Usuario sincronizado com sucesso'', js_error = None\<rparr>, d')"
  by (simp add: sync_user_after_auth_creation_def)

lemma u_id_new_usuario: "u_id (new_usuario now X e n) = X"
  by (simp add: new_usuario_def)

lemma sync_statements_Inr:
  assumes "sync_statements now chk X e n c d = Inr d'"
  shows "X \<notin> set (map u_id (usuarios d))"
    and "usuarios d' = usuarios d @ [new_usuario now X e n]"
    and "auth_users d' = auth_users d"
    and "clientes d' = map (\<lambda>r. if c_id r = c
            then r\<lparr>usuario_portal_id := Some X, c_updated_at := now, c_updated_by := X\<rparr>
            else r) (clientes d)"
  using assms
  by (auto simp: sync_statements_def insert_usuario_def update_cliente_def u_id_new_usuario
      split: if_splits option.splits sum.splits)


lemma not_synced:
  assumes "sync_user_after_auth_creation now chk X e n c d = Inr (j, d')" and "\<not> js_success j"
  shows "\<exists>err. sync_statements now chk X e n c d = Inl err \<and>
           js_error j = Some (''Erro ao sincronizar usuario: '' @ sqlerrm err)"
  using assms
  by (cases "sync_statements now chk X e n c d")
     (auto simp: sync_user_after_auth_creation_def split: if_splits)

lemma escaped:
  assumes "sync_user_after_auth_creation now chk X e n c d = Inl err"
  shows "sync_statements now chk X e n c d = Inl err \<and> \<not> when_others err"
  using assms
  by (cases "sync_statements now chk X e n c d")
     (auto simp: sync_user_after_auth_creation_def split: if_splits)

lemma pkey_violation:
  "X \<in> set (map u_id (usuarios d)) \<Longrightarrow>
     sync_statements now chk X e n c d
       = Inl \<lparr>sqlstate = ''23505'',
              sqlerrm = ''duplicate key value violates unique constraint usuarios_pkey''\<rparr>"
  by (simp add: sync_statements_def insert_usuario_def u_id_new_usuario)

lemma update_nothing:
  "\<forall>r \<in> set rows. c_id r \<noteq> c \<Longrightarrow> map (\<lambda>r. if c_id r = c then f r else r) rows = rows"
  by (induction rows) auto

lemma sync_without_cliente:
  assumes "X \<notin> set (map u_id (usuarios d))"
      and "chk (new_usuario now X e n) (usuarios d) = None"
      and "\<forall>r \<in> set (clientes d). c_id r \<noteq> c"
  shows "sync_statements now chk X e n c d = Inr (d\<lparr>usuarios := usuarios d @ [new_usuario now X e n]\<rparr>)"
  using assms
  by (simp add: sync_statements_def insert_usuario_def update_cliente_def u_id_new_usuario
        update_nothing)

section \<open>The steps of \<open>createPortalUser\<close>\<close>

lemma run_to_step3:
  "passes_check env p w \<Longrightarrow>
     createPortalUser_try env p w = create_and_sync env p (world_at_step3 env p w)"
  by (cases w; cases "rpc_clean env"; cases "select_existing env")
     (auto simp: createPortalUser_try_def passes_check_def await_def
        rpc_clean_duplicate_usuarios_def select_usuario_by_email_def sent_def Let_def
        world_at_step3_def usuarios_after_step1_def single_def active_of_def
        split: list.splits)

lemma run_to_step4:
  "createUser env = Completes \<Longrightarrow> assigned_user env = Some X \<Longrightarrow>
     create_and_sync env p (world_at_step3 env p w)
       = sync_and_verify env p X (world_at_step4 env p w X)"
  by (cases w) (simp add: create_and_sync_def await_def auth_admin_createUser_def sent_def Let_def
        world_at_step3_def world_at_step4_def)

lemma reach4:
  "reaches_step4 env p w X \<Longrightarrow>
     createPortalUser_try env p w = sync_and_verify env p X (world_at_step4 env p w X)"
  by (simp add: reaches_step4_def run_to_step3 run_to_step4)

lemma sync_and_verify_rpc_fails:
  "rpc_sync env = Fails e \<Longrightarrow>
     sync_and_verify env p X w4 =
       (Inl (Error (''Erro ao sincronizar usuario: '' @ err_message e)),
        snd (auth_admin_deleteUser env X
               (sent (RpcSync X (email p) (nomeCliente p) (clienteId p)) w4)))"
  by (simp add: sync_and_verify_def await_def rpc_sync_user_after_auth_creation_def Let_def
        try_deleteUser_def throw_def split: prod.splits)

lemma sync_and_verify_raises:
  "rpc_sync env = Completes \<Longrightarrow>
   sync_statements (clock env) (usuarios_check env) X (email p) (nomeCliente p) (clienteId p)
     (store w4) = Inl err \<Longrightarrow>
     sync_and_verify env p X w4 =
       (Inl (Error (''Erro ao sincronizar usuario: '' @ sqlerrm err)),
        snd (auth_admin_deleteUser env X
               (sent (RpcSync X (email p) (nomeCliente p) (clienteId p)) w4)))"
  by (cases w4; cases "when_others err")
     (simp_all add: sync_and_verify_def await_def rpc_sync_user_after_auth_creation_def Let_def
        try_deleteUser_def throw_def sync_raises sync_escapes sent_def pg_error_of_def
        split: prod.splits)

lemma sync_and_verify_commits:
  "rpc_sync env = Completes \<Longrightarrow>
   sync_statements (clock env) (usuarios_check env) X (email p) (nomeCliente p) (clienteId p)
     (store w4) = Inr d' \<Longrightarrow>
     sync_and_verify env p X w4 =
       verify_and_return env X
         \<lparr>store = d', calls = calls w4 @ [RpcSync X (email p) (nomeCliente p) (clienteId p)]\<rparr>"
  by (cases w4) (simp add: sync_and_verify_def await_def rpc_sync_user_after_auth_creation_def Let_def
        sync_commits sent_def)

lemma sync_and_verify_throws:
  "rpc_sync env = Throws t \<Longrightarrow>
     sync_and_verify env p X w4 =
       (Inl t, sent (RpcSync X (email p) (nomeCliente p) (clienteId p)) w4)"
  by (simp add: sync_and_verify_def await_def rpc_sync_user_after_auth_creation_def Let_def)

lemma deleteUser_world:
  "snd (auth_admin_deleteUser env X w) =
     \<lparr>store = (store w)\<lparr>auth_users :=
         (if deleteUser env = Completes then filter (\<lambda>a. a_id a \<noteq> X) (auth_users (store w))
          else auth_users (store w))\<rparr>,
      calls = calls w @ [DeleteUser X]\<rparr>"
  by (cases w; cases "deleteUser env")
     (simp_all add: auth_admin_deleteUser_def sent_def Let_def)

lemma verify_and_return_cases:
  "verify_and_return env X w =
     (case select_verify env of
        Throws t \<Rightarrow> (Inl t, sent (SelectById X) w)
      | Fails e \<Rightarrow>
          (Inl (Error ''Usuario criado mas nao encontrado na verificacao''), sent (SelectById X) w)
      | Completes \<Rightarrow>
          (case filter (\<lambda>u. u_id u = X) (usuarios (store w)) of
             [r] \<Rightarrow> (Inr \<lparr>success = True, error = None,
                       message = Some ''Portal criado com sucesso! O cliente pode agora fazer login.'',
                       userId = Some X\<rparr>, sent (SelectById X) w)
           | _ \<Rightarrow> (Inl (Error ''Usuario criado mas nao encontrado na verificacao''),
                   sent (SelectById X) w)))"
  by (cases "select_verify env")
     (auto simp: verify_and_return_def await_def select_usuario_by_id_def Let_def sent_def
        single_def throw_def return_def split: list.splits)

lemma filter_fresh_append:
  "k \<notin> set (map f xs) \<Longrightarrow> f y = k \<Longrightarrow> filter (\<lambda>u. f u = k) (xs @ [y]) = [y]"
  by (induction xs) auto

lemma caught:
  "createPortalUser_try env p w = (Inl (Error m), w1) \<Longrightarrow>
     createPortalUser env p w =
       (Inr \<lparr>success = False, error = Some (if m = [] then ''Erro interno do servidor'' else m),
             message = None, userId = None\<rparr>, w1)"
  by (simp add: createPortalUser_def)

lemma uncaught:
  "createPortalUser_try env p w = (Inl Nullish, w1) \<Longrightarrow>
     createPortalUser env p w =
       (Inl (Error ''Cannot read properties of null (reading message)''), w1)"
  by (simp add: createPortalUser_def)

lemma returned:
  "createPortalUser_try env p w = (Inr r, w1) \<Longrightarrow> createPortalUser env p w = (Inr r, w1)"
  by (simp add: createPortalUser_def)

lemma thrown_no_success:
  assumes "createPortalUser_try env p w = (Inl t, w1)"
      and "createPortalUser env p w = (Inr r, w')"
  shows "\<not> success r"
  using assms caught [of env p w _ w1] uncaught [of env p w w1] by (cases t) auto

lemma stopped_at_check:
  "\<not> passes_check env p w \<Longrightarrow> createPortalUser env p w = (Inr r, w') \<Longrightarrow> \<not> success r"
  by (cases "rpc_clean env"; cases "select_existing env")
     (auto simp: createPortalUser_def createPortalUser_try_def passes_check_def await_def
        rpc_clean_duplicate_usuarios_def select_usuario_by_email_def sent_def Let_def
        usuarios_after_step1_def single_def active_of_def throw_def return_def
        split: list.splits thrown.splits)

lemma stopped_at_create:
  "\<not> (createUser env = Completes \<and> (\<exists>X. assigned_user env = Some X)) \<Longrightarrow>
     \<exists>t w1. create_and_sync env p w3 = (Inl t, w1)"
  by (cases "createUser env"; cases "assigned_user env")
     (auto simp: create_and_sync_def await_def auth_admin_createUser_def Let_def throw_def)

lemma success_inversion:
  assumes run: "createPortalUser env p w = (Inr r, w')" and ok: "success r"
  shows "\<exists>X d'. reaches_step4 env p w X \<and> rpc_sync env = Completes \<and>
           select_verify env = Completes \<and>
           sync_statements (clock env) (usuarios_check env) X (email p) (nomeCliente p)
             (clienteId p) (store (world_at_step4 env p w X)) = Inr d' \<and>
           userId r = Some X \<and> store w' = d'"
proof -
  have pc: "passes_check env p w"
    using stopped_at_check [of env p w r w'] run ok by auto
  have cu: "createUser env = Completes \<and> (\<exists>X. assigned_user env = Some X)"
  proof (rule ccontr)
    assume "\<not> ?thesis"
    from stopped_at_create [OF this, of p "world_at_step3 env p w"]
    obtain t w1 where "createPortalUser_try env p w = (Inl t, w1)"
      using run_to_step3 [OF pc] by auto
    from thrown_no_success [OF this run] ok show False by simp
  qed
  then obtain X where X: "assigned_user env = Some X" by blast
  have r4: "reaches_step4 env p w X"
    using pc cu X by (simp add: reaches_step4_def)
  let ?w4 = "world_at_step4 env p w X"
  let ?rq = "RpcSync X (email p) (nomeCliente p) (clienteId p)"
  have try4: "createPortalUser_try env p w = sync_and_verify env p X ?w4"
    by (rule reach4 [OF r4])
  have rs: "rpc_sync env = Completes"
  proof (cases "rpc_sync env")
    case Completes
    then show ?thesis .
  next
    case (Fails e)
    from thrown_no_success [OF try4 [unfolded sync_and_verify_rpc_fails [OF Fails]] run] ok
    show ?thesis by simp
  next
    case (Throws t)
    from thrown_no_success [OF try4 [unfolded sync_and_verify_throws [OF Throws]] run] ok
    show ?thesis by simp
  qed
  obtain d' where d': "sync_statements (clock env) (usuarios_check env) X (email p)
      (nomeCliente p) (clienteId p) (store ?w4) = Inr d'"
  proof (cases "sync_statements (clock env) (usuarios_check env) X (email p)
      (nomeCliente p) (clienteId p) (store ?w4)")
    case (Inl err)
    from thrown_no_success [OF try4 [unfolded sync_and_verify_raises [OF rs Inl]] run] ok
    show ?thesis by simp
  next
    case (Inr d')
    then show ?thesis by (rule that)
  qed
  let ?w5 = "\<lparr>store = d', calls = calls ?w4 @ [?rq]\<rparr>"
  have try5: "createPortalUser_try env p w = verify_and_return env X ?w5"
    using try4 sync_and_verify_commits [OF rs d'] by simp
  have sv: "select_verify env = Completes"
  proof (cases "select_verify env")
    case Completes
    then show ?thesis .
  next
    case (Fails e)
    with try5 have "createPortalUser_try env p w =
        (Inl (Error ''Usuario criado mas nao encontrado na verificacao''),
         sent (SelectById X) ?w5)"
      by (simp add: verify_and_return_cases)
    from thrown_no_success [OF this run] ok show ?thesis by simp
  next
    case (Throws t)
    with try5 have "createPortalUser_try env p w = (Inl t, sent (SelectById X) ?w5)"
      by (simp add: verify_and_return_cases)
    from thrown_no_success [OF this run] ok show ?thesis by simp
  qed
  have "filter (\<lambda>u. u_id u = X) (usuarios d') = [new_usuario (clock env) X (email p) (nomeCliente p)]"
    unfolding sync_statements_Inr(2) [OF d']
    by (rule filter_fresh_append [OF sync_statements_Inr(1) [OF d'] u_id_new_usuario])
  then have one: "filter (\<lambda>u. u_id u = X) (usuarios (store ?w5)) = [new_usuario (clock env) X (email p) (nomeCliente p)]"
    by simp
  have "createPortalUser_try env p w =
      (Inr \<lparr>success = True, error = None,
            message = Some ''Portal criado com sucesso! O cliente pode agora fazer login.'',
            userId = Some X\<rparr>, sent (SelectById X) ?w5)"
    using try5 sv one by (simp add: verify_and_return_cases)
  from returned [OF this] run have "userId r = Some X" "store w' = d'"
    by (auto simp: sent_def)
  with r4 rs sv d' show ?thesis by blast
qed

lemma world_at_step4_simps:
  "usuarios (store (world_at_step4 env p w X)) = usuarios_after_step1 env p w"
  "clientes (store (world_at_step4 env p w X)) = clientes (store w)"
  "auth_users (store (world_at_step4 env p w X))
     = auth_users (store w) @ [\<lparr>a_id = X, a_email = email p\<rparr>]"
  "calls (world_at_step4 env p w X)
     = calls w @ [RpcClean (email p), SelectByEmail (email p),
                  CreateUser (email p) (password p) (nomeCliente p) (clienteId p)]"
  by (simp_all add: world_at_step4_def)

lemma compensated_world:
  "snd (auth_admin_deleteUser env X
          (sent (RpcSync X (email p) (nomeCliente p) (clienteId p)) (world_at_step4 env p w X)))
   = \<lparr>store = (store w)\<lparr>usuarios := usuarios_after_step1 env p w,
         auth_users := (if deleteUser env = Completes
                        then filter (\<lambda>a. a_id a \<noteq> X) (auth_users (store w))
                        else auth_users (store w) @ [\<lparr>a_id = X, a_email = email p\<rparr>])\<rparr>,
       calls = calls w @ [RpcClean (email p), SelectByEmail (email p),
                  CreateUser (email p) (password p) (nomeCliente p) (clienteId p),
                  RpcSync X (email p) (nomeCliente p) (clienteId p), DeleteUser X]\<rparr>"
  by (simp add: deleteUser_world sent_def world_at_step4_def)

lemma run_sync_rpc_fails:
  assumes "reaches_step4 env p w X" and "rpc_sync env = Fails e"
  shows "createPortalUser env p w =
     (Inr \<lparr>success = False, error = Some (''Erro ao sincronizar usuario: '' @ err_message e),
           message = None, userId = None\<rparr>,
      snd (auth_admin_deleteUser env X
          (sent (RpcSync X (email p) (nomeCliente p) (clienteId p)) (world_at_step4 env p w X))))"
  using caught [of env p w] reach4 [OF assms(1)] sync_and_verify_rpc_fails [OF assms(2)]
  by simp

lemma run_sync_raises:
  assumes "reaches_step4 env p w X" and "rpc_sync env = Completes"
      and "sync_statements (clock env) (usuarios_check env) X (email p) (nomeCliente p)
             (clienteId p) (store (world_at_step4 env p w X)) = Inl err"
  shows "createPortalUser env p w =
     (Inr \<lparr>success = False, error = Some (''Erro ao sincronizar usuario: '' @ sqlerrm err),
           message = None, userId = None\<rparr>,
      snd (auth_admin_deleteUser env X
          (sent (RpcSync X (email p) (nomeCliente p) (clienteId p)) (world_at_step4 env p w X))))"
  using caught [of env p w] reach4 [OF assms(1)] sync_and_verify_raises [OF assms(2,3)]
  by simp

lemma after_step1_delete:
  "usuarios_after_step1 (env\<lparr>deleteUser := oc\<rparr>) p w = usuarios_after_step1 env p w"
  by (simp add: usuarios_after_step1_def)

lemma delete_outcome_irrelevant:
  "reaches_step4 (env\<lparr>deleteUser := oc\<rparr>) p w X = reaches_step4 env p w X"
  "world_at_step4 (env\<lparr>deleteUser := oc\<rparr>) p w X = world_at_step4 env p w X"
  by (simp_all add: reaches_step4_def passes_check_def world_at_step4_def after_step1_delete
        cong: outcome.case_cong)

lemma nothing_left_of_email:
  assumes pk: "usuarios_pkey tbl"
      and "length (active_of e (clean_duplicate_usuarios e tbl)) \<noteq> 1"
  shows "rows_of e (clean_duplicate_usuarios e tbl) = []"
proof (cases "active_of e tbl = []")
  case True
  then show ?thesis by (rule rows_clean_none)
next
  case False
  from rows_clean_some [OF pk False] assms(2) show ?thesis
    by (auto simp: active_rows_clean)
qed

lemma clean_subset: "set (clean_duplicate_usuarios e tbl) \<subseteq> set tbl"
  by (auto simp: clean_unfold first_delete_def)

lemma after_step1_subset: "set (usuarios_after_step1 env p w) \<subseteq> set (usuarios (store w))"
  using clean_subset by (cases "rpc_clean env") (auto simp: usuarios_after_step1_def)

lemma after_step1_noop:
  assumes "deleted_of (email p) (usuarios (store w)) = []"
      and "length (rows_of (email p) (usuarios (store w))) \<le> 1"
  shows "usuarios_after_step1 env p w = usuarios (store w)"
proof -
  let ?tbl = "usuarios (store w)" and ?e = "email p"
  have nd: "\<forall>u \<in> set ?tbl. u_email u = ?e \<longrightarrow> deleted_at u = None"
    using assms(1) by (auto simp: deleted_of_def filter_empty_conv)
  have "\<forall>u \<in> set ?tbl. \<forall>v \<in> set ?tbl. u_email u = ?e \<longrightarrow> u_email v = ?e \<longrightarrow> u = v"
    using assms(2) filter_le1_unique [of "\<lambda>u. u_email u = ?e" ?tbl] by (auto simp: rows_of_def)
  then have "\<forall>u \<in> set ?tbl. \<forall>v \<in> set ?tbl. u_email u = ?e \<longrightarrow> u_email v = ?e \<longrightarrow> u_id u = u_id v"
    by blast
  with nd have "clean_duplicate_usuarios ?e ?tbl = ?tbl" by (rule clean_noop)
  then show ?thesis by (cases "rpc_clean env") (simp_all add: usuarios_after_step1_def)
qed

lemma run_duplicate:
  assumes "case rpc_clean env of Throws m \<Rightarrow> False | _ \<Rightarrow> True"
      and "select_existing env = Completes"
      and "length (active_of (email p) (usuarios_after_step1 env p w)) = 1"
  shows "createPortalUser env p w = (Inr DuplicateEmail, world_at_step3 env p w)"
  using assms
  by (cases w; cases "rpc_clean env")
     (auto simp: createPortalUser_def createPortalUser_try_def await_def
        rpc_clean_duplicate_usuarios_def select_usuario_by_email_def sent_def Let_def
        usuarios_after_step1_def single_def active_of_def throw_def return_def
        world_at_step3_def DuplicateEmail_def length_Suc_conv
        split: list.splits)

lemma run_create_fails:
  assumes "passes_check env p w" and "createUser env = Fails e"
  shows "createPortalUser env p w =
     (Inr \<lparr>success = False, error = Some (''Erro na autenticacao: '' @ err_message e),
           message = None, userId = None\<rparr>,
      \<lparr>store = (store w)\<lparr>usuarios := usuarios_after_step1 env p w\<rparr>,
       calls = calls w @ [RpcClean (email p), SelectByEmail (email p),
                CreateUser (email p) (password p) (nomeCliente p) (clienteId p)]\<rparr>)"
proof -
  have "create_and_sync env p (world_at_step3 env p w) =
      (Inl (Error (''Erro na autenticacao: '' @ err_message e)),
       sent (CreateUser (email p) (password p) (nomeCliente p) (clienteId p))
         (world_at_step3 env p w))"
    using assms(2)
    by (simp add: create_and_sync_def await_def auth_admin_createUser_def Let_def throw_def)
  with run_to_step3 [OF assms(1)] caught [of env p w] show ?thesis
    by (simp add: sent_def world_at_step3_def)
qed

lemma verify_Inr: "verify_and_return env X w = (Inr r, w1) \<Longrightarrow> success r"
  by (auto simp: verify_and_return_cases split: outcome.splits list.splits)

lemma sync_Inr:
  assumes "sync_and_verify env p X w = (Inr r, w1)"
  shows "success r"
proof (cases "rpc_sync env")
  case Completes
  show ?thesis
  proof (cases "sync_statements (clock env) (usuarios_check env) X (email p) (nomeCliente p)
           (clienteId p) (store w)")
    case (Inl err)
    from sync_and_verify_raises [OF Completes Inl] assms show ?thesis by simp
  next
    case (Inr d')
    from sync_and_verify_commits [OF Completes Inr] assms
    have "verify_and_return env X
            \<lparr>store = d', calls = calls w @ [RpcSync X (email p) (nomeCliente p) (clienteId p)]\<rparr>
          = (Inr r, w1)" by simp
    then show ?thesis by (rule verify_Inr)
  qed
next
  case (Fails e)
  from sync_and_verify_rpc_fails [OF Fails, of p X w] assms show ?thesis by simp
next
  case (Throws t)
  from sync_and_verify_throws [OF Throws, of p X w] assms show ?thesis by simp
qed

lemma create_Inr: "create_and_sync env p w = (Inr r, w1) \<Longrightarrow> success r"
  by (cases "createUser env"; cases "assigned_user env")
     (auto simp: create_and_sync_def await_def auth_admin_createUser_def Let_def throw_def
        dest: sync_Inr)

lemma try_Inr:
  assumes "createPortalUser_try env p w = (Inr r, w1)"
  shows "success r \<or> r = DuplicateEmail"
proof (cases "passes_check env p w")
  case True
  from run_to_step3 [OF True] assms
  have "create_and_sync env p (world_at_step3 env p w) = (Inr r, w1)" by simp
  then show ?thesis by (simp add: create_Inr)
next
  case False
  then show ?thesis using assms
    by (cases "rpc_clean env"; cases "select_existing env")
       (auto simp: createPortalUser_try_def passes_check_def await_def
          rpc_clean_duplicate_usuarios_def select_usuario_by_email_def sent_def Let_def
          usuarios_after_step1_def single_def active_of_def throw_def return_def
          DuplicateEmail_def split: list.splits)
qed

text \<open>
  Where a \<open>null\<close> thrown by the \<open>try\<close> block can come from: every \<open>throw\<close> of the block
  throws an \<open>Error\<close>, and the rejection of the compensating delete is swallowed, so it
  is the rejection of one of the five other calls.
\<close>

lemma verify_null:
  "verify_and_return env X w = (Inl Nullish, w1) \<Longrightarrow> select_verify env = Throws Nullish"
  by (auto simp: verify_and_return_cases split: outcome.splits list.splits)

lemma sync_null:
  assumes "sync_and_verify env p X w = (Inl Nullish, w1)"
  shows "rpc_sync env = Throws Nullish \<or> select_verify env = Throws Nullish"
proof (cases "rpc_sync env")
  case Completes
  show ?thesis
  proof (cases "sync_statements (clock env) (usuarios_check env) X (email p) (nomeCliente p)
           (clienteId p) (store w)")
    case (Inl err)
    from sync_and_verify_raises [OF Completes Inl] assms show ?thesis by simp
  next
    case (Inr d')
    from sync_and_verify_commits [OF Completes Inr] assms
    have "verify_and_return env X
            \<lparr>store = d', calls = calls w @ [RpcSync X (email p) (nomeCliente p) (clienteId p)]\<rparr>
          = (Inl Nullish, w1)" by simp
    then show ?thesis by (simp add: verify_null)
  qed
next
  case (Fails e)
  from sync_and_verify_rpc_fails [OF Fails, of p X w] assms show ?thesis by simp
next
  case (Throws t)
  from sync_and_verify_throws [OF Throws, of p X w] assms Throws show ?thesis by simp
qed

lemma create_null:
  "create_and_sync env p w = (Inl Nullish, w1) \<Longrightarrow>
     createUser env = Throws Nullish \<or> rpc_sync env = Throws Nullish \<or>
     select_verify env = Throws Nullish"
  by (cases "createUser env"; cases "assigned_user env")
     (auto simp: create_and_sync_def await_def auth_admin_createUser_def Let_def throw_def
        dest: sync_null)

lemma try_null:
  assumes "createPortalUser_try env p w = (Inl Nullish, w1)"
  shows "rpc_clean env = Throws Nullish \<or> select_existing env = Throws Nullish \<or>
         createUser env = Throws Nullish \<or> rpc_sync env = Throws Nullish \<or>
         select_verify env = Throws Nullish"
proof (cases "passes_check env p w")
  case True
  from run_to_step3 [OF True] assms
  have "create_and_sync env p (world_at_step3 env p w) = (Inl Nullish, w1)" by simp
  from create_null [OF this] show ?thesis by blast
next
  case False
  then show ?thesis using assms
    by (cases "rpc_clean env"; cases "select_existing env")
       (auto simp: createPortalUser_try_def passes_check_def await_def
          rpc_clean_duplicate_usuarios_def select_usuario_by_email_def sent_def Let_def
          usuarios_after_step1_def single_def active_of_def throw_def return_def
          split: list.splits)
qed

lemma testUserSync_reads_only: "store (snd (testUserSync env e w)) = store w"
  by (cases "listUsers env"; cases "select_public env")
     (auto simp: testUserSync_def testUserSync_try_def await_def auth_admin_listUsers_def
        select_usuario_by_email_def sent_def Let_def return_def throw_def single_def
        split: option.splits list.splits prod.splits sum.splits)

lemma testUserSync_report:
  assumes "listUsers env = Completes" and "select_public env = Completes"
      and "find (\<lambda>u. a_email u = e) (auth_users (store w)) = Some a"
      and "active_of e (usuarios (store w)) = [u]"
  shows "testUserSync env e w =
           (Some \<lparr>authId = a_id a, publicId = u_id u, idsMatch = (a_id a = u_id u)\<rparr>,
            w\<lparr>calls := calls w @ [ListUsers, SelectByEmail e]\<rparr>)"
  using assms
  by (simp add: testUserSync_def testUserSync_try_def await_def auth_admin_listUsers_def
        select_usuario_by_email_def sent_def Let_def return_def single_def active_of_def)

section \<open>The claims about the provisioning workflow\<close>

text \<open>
  C1 (as amended). Whenever \<open>createPortalUser\<close> returns success, the returned \<open>userId\<close> is
  the identifier \<open>X\<close> the provider assigned in step 3; the identity \<open>X\<close> with the email is
  among the authentication users; \<open>usuarios\<close> holds exactly one row with id \<open>X\<close>, the one
  \<open>sync_user_after_auth_creation\<close> inserted, with the email and name of the call, the
  type \<open>cliente\<close>, and \<open>X\<close> as tenant, creator and updater; every \<open>clientes\<close> row whose id
  is the customer of the call has \<open>usuario_portal_id = X\<close>; and when the customer of the
  call is a row of \<open>clientes\<close>, such a row is there afterwards.
\<close>

theorem createPortalUser_success_ids:
  assumes run: "createPortalUser env p w = (Inr r, w')" and ok: "success r"
  shows "\<exists>X. assigned_user env = Some X \<and> userId r = Some X \<and>
           \<lparr>a_id = X, a_email = email p\<rparr> \<in> set (auth_users (store w')) \<and>
           (\<exists>row. filter (\<lambda>u. u_id u = X) (usuarios (store w')) = [row] \<and>
              u_id row = X \<and> u_email row = email p \<and> nome row = nomeCliente p \<and>
              tipo_usuario row = ''cliente'' \<and> tenant_id row = X \<and>
              created_by row = X \<and> updated_by row = X \<and> deleted_at row = None) \<and>
           (\<forall>c \<in> set (clientes (store w')). c_id c = clienteId p \<longrightarrow> usuario_portal_id c = Some X) \<and>
           ((\<exists>c \<in> set (clientes (store w)). c_id c = clienteId p) \<longrightarrow>
              (\<exists>c \<in> set (clientes (store w')). c_id c = clienteId p \<and> usuario_portal_id c = Some X))"
proof -
  from success_inversion [OF run ok] obtain X d' where
    h: "reaches_step4 env p w X"
       "sync_statements (clock env) (usuarios_check env) X (email p) (nomeCliente p)
             (clienteId p) (store (world_at_step4 env p w X)) = Inr d'"
       "userId r = Some X" "store w' = d'" by blast
  let ?row = "new_usuario (clock env) X (email p) (nomeCliente p)"
  note s = sync_statements_Inr [OF h(2)]
  have a: "\<lparr>a_id = X, a_email = email p\<rparr> \<in> set (auth_users (store w'))"
    using s(3) h(4) by (simp add: world_at_step4_def)
  have "filter (\<lambda>u. u_id u = X) (usuarios d') = [?row]"
    unfolding s(2) by (rule filter_fresh_append [OF s(1) u_id_new_usuario])
  then have f: "filter (\<lambda>u. u_id u = X) (usuarios (store w')) = [?row]"
    using h(4) by simp
  have c: "\<forall>c \<in> set (clientes (store w')). c_id c = clienteId p \<longrightarrow> usuario_portal_id c = Some X"
    using s(4) h(4) by auto
  have e: "(\<exists>c \<in> set (clientes (store w)). c_id c = clienteId p) \<longrightarrow>
              (\<exists>c \<in> set (clientes (store w')). c_id c = clienteId p \<and> usuario_portal_id c = Some X)"
  proof
    assume "\<exists>c \<in> set (clientes (store w)). c_id c = clienteId p"
    then obtain c0 where c0: "c0 \<in> set (clientes (store w))" "c_id c0 = clienteId p" by blast
    let ?c1 = "c0\<lparr>usuario_portal_id := Some X, c_updated_at := clock env, c_updated_by := X\<rparr>"
    have "?c1 \<in> set (clientes d')"
      using c0 by (auto simp: s(4) world_at_step4_simps image_iff intro!: bexI [of _ c0])
    moreover have "c_id ?c1 = clienteId p" "usuario_portal_id ?c1 = Some X"
      using c0(2) by simp_all
    ultimately show "\<exists>c \<in> set (clientes (store w')). c_id c = clienteId p \<and> usuario_portal_id c = Some X"
      using h(4) by blast
  qed
  have x: "assigned_user env = Some X" using h(1) by (simp add: reaches_step4_def)
  from x h(3) a f c e show ?thesis by (auto simp: new_usuario_def)
qed

text \<open>
  The claim as first stated has, after every successful call, a customer row with the id
  of the call that references the new profile. The \<open>UPDATE\<close> of the procedure changes no
  row when the id matches none, and nothing tests how many rows it changed: here the
  call succeeds for the customer \<open>c-404\<close>, the only customer row is \<open>c-1\<close>, and it still
  references no profile.
\<close>

theorem createPortalUser_success_no_customer:
  "fst (createPortalUser all_complete no_such_cliente ex_world) = Inr created \<and>
   userId created = Some ''X'' \<and> clienteId no_such_cliente = ''c-404'' \<and>
   map c_id (clientes (store (snd (createPortalUser all_complete no_such_cliente ex_world))))
     = [''c-1''] \<and>
   map usuario_portal_id
     (clientes (store (snd (createPortalUser all_complete no_such_cliente ex_world)))) = [None]"
  by code_simp

lemma ex_run:
  "createPortalUser all_complete ex_params ex_world =
     (Inr created,
      \<lparr>store = \<lparr>usuarios = [new_usuario 100 ''X'' ''a@b.com'' ''Ana''],
                clientes = [\<lparr>c_id = ''c-1'', usuario_portal_id = Some ''X'',
                             c_updated_at = 100, c_updated_by = ''X''\<rparr>],
                auth_users = [\<lparr>a_id = ''X'', a_email = ''a@b.com''\<rparr>]\<rparr>,
       calls = [RpcClean ''a@b.com'', SelectByEmail ''a@b.com'',
                CreateUser ''a@b.com'' ''secret1'' ''Ana'' ''c-1'',
                RpcSync ''X'' ''a@b.com'' ''Ana'' ''c-1'', SelectById ''X'']\<rparr>)"
  by code_simp

theorem createPortalUser_success_ids_witness:
  "fst (createPortalUser all_complete ex_params ex_world) = Inr created \<and> success created \<and>
   (\<exists>c \<in> set (clientes (store ex_world)). c_id c = clienteId ex_params) \<and>
   userId created = Some ''X'' \<and>
   \<lparr>a_id = ''X'', a_email = ''a@b.com''\<rparr>
     \<in> set (auth_users (store (snd (createPortalUser all_complete ex_params ex_world)))) \<and>
   (\<exists>c \<in> set (clientes (store (snd (createPortalUser all_complete ex_params ex_world)))).
      c_id c = ''c-1'' \<and> usuario_portal_id c = Some ''X'') \<and>
   map u_id (usuarios (store (snd (createPortalUser all_complete ex_params ex_world)))) = [''X''] \<and>
   map usuario_portal_id (clientes (store (snd (createPortalUser all_complete ex_params ex_world))))
     = [Some ''X'']"
proof -
  have run: "createPortalUser all_complete ex_params ex_world
      = (Inr created, snd (createPortalUser all_complete ex_params ex_world))"
    by (simp add: ex_run)
  have ok: "success created" by (simp add: created_def)
  have row: "\<exists>c \<in> set (clientes (store ex_world)). c_id c = clienteId ex_params"
    by code_simp
  have tables:
    "map u_id (usuarios (store (snd (createPortalUser all_complete ex_params ex_world)))) = [''X'']"
    "map usuario_portal_id
       (clientes (store (snd (createPortalUser all_complete ex_params ex_world)))) = [Some ''X'']"
    by (simp_all add: ex_run u_id_new_usuario)
  have p: "email ex_params = ''a@b.com''" "clienteId ex_params = ''c-1''"
          "assigned_user all_complete = Some ''X''"
    by (simp_all add: ex_params_def all_complete_def)
  from createPortalUser_success_ids [OF run ok] row
  have "userId created = Some ''X'' \<and>
        \<lparr>a_id = ''X'', a_email = ''a@b.com''\<rparr>
          \<in> set (auth_users (store (snd (createPortalUser all_complete ex_params ex_world)))) \<and>
        (\<exists>c \<in> set (clientes (store (snd (createPortalUser all_complete ex_params ex_world)))).
           c_id c = ''c-1'' \<and> usuario_portal_id c = Some ''X'')"
    unfolding p by auto
  moreover have "fst (createPortalUser all_complete ex_params ex_world) = Inr created"
    by (simp add: ex_run)
  ultimately show ?thesis using ok row tables by simp
qed

text \<open>
  C3 (as amended). Take a run that reaches step 4 with the new identity \<open>X\<close> and whose
  synchronization fails: the call answers with an error (the request fails, or the
  procedure ends with an error its handler does not trap), or the procedure answers
  \<open>success = false\<close>. Then \<open>createPortalUser\<close> returns a failure whose text is
  \<open>Erro ao sincronizar usuario: \<close> followed by the reason (the message of the error, or
  the \<open>SQLERRM\<close> the procedure reports); it sends exactly one \<open>deleteUser X\<close> after the
  synchronization request; and the returned value is the same whatever the outcome of
  that delete. No profile row is inserted and no customer row is changed. The identity
  \<open>X\<close> is gone when the delete completes, and it remains when the delete fails. When
  the clean-up and the existence check both completed on a table with distinct ids, no
  profile row of the email is left.
\<close>

theorem sync_failure_compensated:
  assumes r4: "reaches_step4 env p w X"
      and fail: "rpc_sync env = Fails e \<or>
                 (rpc_sync env = Completes \<and> sync_at_step4 env p w X = Inl err) \<or>
                 (rpc_sync env = Completes \<and> sync_at_step4 env p w X = Inr (j, d') \<and>
                  \<not> js_success j)"
      and run: "createPortalUser env p w = (res, w')"
  shows "\<exists>r. res = Inr r \<and> \<not> success r \<and>
         (rpc_sync env = Fails e \<longrightarrow>
            error r = Some (''Erro ao sincronizar usuario: '' @ err_message e)) \<and>
         (rpc_sync env = Completes \<and> sync_at_step4 env p w X = Inl err \<longrightarrow>
            error r = Some (''Erro ao sincronizar usuario: '' @ sqlerrm err)) \<and>
         (rpc_sync env = Completes \<and> sync_at_step4 env p w X = Inr (j, d') \<longrightarrow>
            error r = js_error j) \<and>
         calls w' = calls w @ [RpcClean (email p), SelectByEmail (email p),
                  CreateUser (email p) (password p) (nomeCliente p) (clienteId p),
                  RpcSync X (email p) (nomeCliente p) (clienteId p), DeleteUser X] \<and>
         (\<forall>oc. fst (createPortalUser (env\<lparr>deleteUser := oc\<rparr>) p w) = res) \<and>
         usuarios (store w') = usuarios_after_step1 env p w \<and>
         clientes (store w') = clientes (store w) \<and>
         auth_users (store w') =
           (if deleteUser env = Completes
            then filter (\<lambda>a. a_id a \<noteq> X) (auth_users (store w))
            else auth_users (store w) @ [\<lparr>a_id = X, a_email = email p\<rparr>]) \<and>
         (usuarios_pkey (usuarios (store w)) \<and> rpc_clean env = Completes \<and>
          select_existing env = Completes \<longrightarrow> rows_of (email p) (usuarios (store w')) = [])"
proof -
  let ?w4 = "world_at_step4 env p w X"
  have clean: "usuarios_pkey (usuarios (store w)) \<and> rpc_clean env = Completes \<and>
          select_existing env = Completes \<longrightarrow> rows_of (email p) (usuarios_after_step1 env p w) = []"
    using r4 nothing_left_of_email [of "usuarios (store w)" "email p"]
    by (auto simp: reaches_step4_def passes_check_def usuarios_after_step1_def)
  have raised: "rpc_sync env = Completes \<Longrightarrow>
      sync_statements (clock env) (usuarios_check env) X (email p) (nomeCliente p)
             (clienteId p) (store ?w4) = Inl err0 \<Longrightarrow>
      (sync_at_step4 env p w X = Inl err \<longrightarrow> sqlerrm err = sqlerrm err0) \<Longrightarrow>
      (sync_at_step4 env p w X = Inr (j, d') \<longrightarrow>
         js_error j = Some (''Erro ao sincronizar usuario: '' @ sqlerrm err0)) \<Longrightarrow>
      ?thesis" for err0
  proof -
    assume c: "rpc_sync env = Completes"
       and m: "sync_statements (clock env) (usuarios_check env) X (email p) (nomeCliente p)
             (clienteId p) (store ?w4) = Inl err0"
       and a: "sync_at_step4 env p w X = Inl err \<longrightarrow> sqlerrm err = sqlerrm err0"
       and b: "sync_at_step4 env p w X = Inr (j, d') \<longrightarrow>
         js_error j = Some (''Erro ao sincronizar usuario: '' @ sqlerrm err0)"
    have "\<And>oc. fst (createPortalUser (env\<lparr>deleteUser := oc\<rparr>) p w) =
        Inr \<lparr>success = False, error = Some (''Erro ao sincronizar usuario: '' @ sqlerrm err0),
         message = None, userId = None\<rparr>"
      using run_sync_raises [of "env\<lparr>deleteUser := oc\<rparr>" p w X err0 for oc] r4 c m
      by (simp add: delete_outcome_irrelevant)
    moreover note run_sync_raises [OF r4 c m] run clean c a b
    ultimately show ?thesis by (auto simp: compensated_world)
  qed
  from fail show ?thesis
  proof (elim disjE)
    assume f: "rpc_sync env = Fails e"
    have "\<And>oc. fst (createPortalUser (env\<lparr>deleteUser := oc\<rparr>) p w) =
        Inr \<lparr>success = False, error = Some (''Erro ao sincronizar usuario: '' @ err_message e),
         message = None, userId = None\<rparr>"
      using run_sync_rpc_fails [of "env\<lparr>deleteUser := oc\<rparr>" p w X e for oc] r4 f
      by (simp add: delete_outcome_irrelevant)
    moreover note run_sync_rpc_fails [OF r4 f] run clean f
    ultimately show ?thesis by (auto simp: compensated_world)
  next
    assume "rpc_sync env = Completes \<and> sync_at_step4 env p w X = Inl err"
    then have c: "rpc_sync env = Completes" and s: "sync_at_step4 env p w X = Inl err"
      by simp_all
    from escaped [OF s [unfolded sync_at_step4_def]] s
    show ?thesis by (intro raised [OF c, of err]) simp_all
  next
    assume "rpc_sync env = Completes \<and> sync_at_step4 env p w X = Inr (j, d') \<and> \<not> js_success j"
    then have c: "rpc_sync env = Completes" and s: "sync_at_step4 env p w X = Inr (j, d')"
      and n: "\<not> js_success j" by simp_all
    from not_synced [OF s [unfolded sync_at_step4_def] n] obtain err0 where
      m: "sync_statements (clock env) (usuarios_check env) X (email p) (nomeCliente p)
             (clienteId p) (store ?w4) = Inl err0"
         "js_error j = Some (''Erro ao sincronizar usuario: '' @ sqlerrm err0)" by blast
    from m s show ?thesis by (intro raised [OF c, of err0]) simp_all
  qed
qed

text \<open>
  The claim as first stated also promises that no identity of the email remains. With
  the synchronization call and the compensating delete both failing, the identity
  created in step 3 is still there after the run.
\<close>

theorem sync_failure_residual_identity:
  "reaches_step4 sync_and_delete_rejected ex_params ex_world ''X'' \<and>
   rpc_sync sync_and_delete_rejected = Fails unavailable \<and>
   fst (createPortalUser sync_and_delete_rejected ex_params ex_world) =
     Inr (failure_of ''Erro ao sincronizar usuario: service unavailable'') \<and>
   auth_users (store (snd (createPortalUser sync_and_delete_rejected ex_params ex_world)))
     = [\<lparr>a_id = ''X'', a_email = ''a@b.com''\<rparr>]"
  by code_simp

theorem sync_failure_compensated_witness:
  "reaches_step4 sync_rejected ex_params ex_world ''X'' \<and>
   rpc_sync sync_rejected = Fails unavailable \<and>
   (\<exists>r. fst (createPortalUser sync_rejected ex_params ex_world) = Inr r \<and> \<not> success r \<and>
      error r = Some ''Erro ao sincronizar usuario: service unavailable'') \<and>
   auth_users (store (snd (createPortalUser sync_rejected ex_params ex_world))) = [] \<and>
   usuarios (store (snd (createPortalUser sync_rejected ex_params ex_world))) = [] \<and>
   reaches_step4 all_complete ex_params stale_world ''X'' \<and>
   rpc_sync all_complete = Completes \<and>
   (\<exists>j d'. sync_at_step4 all_complete ex_params stale_world ''X'' = Inr (j, d') \<and>
      \<not> js_success j) \<and>
   (\<exists>r. fst (createPortalUser all_complete ex_params stale_world) = Inr r \<and> \<not> success r) \<and>
   auth_users (store (snd (createPortalUser all_complete ex_params stale_world))) = [] \<and>
   reaches_step4 sync_times_out ex_params ex_world ''X'' \<and>
   rpc_sync sync_times_out = Completes \<and>
   sync_at_step4 sync_times_out ex_params ex_world ''X'' = Inl statement_timeout \<and>
   (\<exists>r. fst (createPortalUser sync_times_out ex_params ex_world) = Inr r \<and> \<not> success r \<and>
      error r = Some ''Erro ao sincronizar usuario: canceling statement due to statement timeout'') \<and>
   auth_users (store (snd (createPortalUser sync_times_out ex_params ex_world))) = []"
proof -
  have a: "reaches_step4 sync_rejected ex_params ex_world ''X''" by code_simp
  have b: "rpc_sync sync_rejected = Fails unavailable" by code_simp
  have c: "reaches_step4 all_complete ex_params stale_world ''X''" by code_simp
  have d: "rpc_sync all_complete = Completes \<and>
           sync_at_step4 all_complete ex_params stale_world ''X'' =
             Inr (\<lparr>js_success = False, js_user_id = None, js_message = None,
                   js_error = Some ''Erro ao sincronizar usuario: duplicate key value violates unique constraint usuarios_pkey''\<rparr>,
                  store (world_at_step4 all_complete ex_params stale_world ''X'')) \<and>
           \<not> js_success \<lparr>js_success = False, js_user_id = None, js_message = None,
                   js_error = Some ''Erro ao sincronizar usuario: duplicate key value violates unique constraint usuarios_pkey''\<rparr>"
    by code_simp
  have f: "reaches_step4 sync_times_out ex_params ex_world ''X''" by code_simp
  have g: "rpc_sync sync_times_out = Completes \<and>
           sync_at_step4 sync_times_out ex_params ex_world ''X'' = Inl statement_timeout"
    by code_simp
  have e: "deleteUser sync_rejected = Completes" "deleteUser all_complete = Completes"
          "deleteUser sync_times_out = Completes"
          "usuarios_after_step1 sync_rejected ex_params ex_world = []"
          "auth_users (store ex_world) = []" "auth_users (store stale_world) = []"
          "err_message unavailable = ''service unavailable''"
          "sqlerrm statement_timeout = ''canceling statement due to statement timeout''"
    by code_simp+
  from sync_failure_compensated [where err = statement_timeout and j = "\<lparr>js_success = True, js_user_id = None, js_message = None, js_error = None\<rparr>"
         and d' = "store ex_world", OF a disjI1 [OF b] prod.collapse [symmetric]] a b e
  have 1: "(\<exists>r. fst (createPortalUser sync_rejected ex_params ex_world) = Inr r \<and> \<not> success r \<and>
       error r = Some ''Erro ao sincronizar usuario: service unavailable'') \<and>
     auth_users (store (snd (createPortalUser sync_rejected ex_params ex_world))) = [] \<and>
     usuarios (store (snd (createPortalUser sync_rejected ex_params ex_world))) = []"
    by auto
  from sync_failure_compensated [where e = unavailable and err = statement_timeout,
         OF c disjI2 [OF disjI2 [OF d]] prod.collapse [symmetric]] e
  have 2: "(\<exists>r. fst (createPortalUser all_complete ex_params stale_world) = Inr r \<and> \<not> success r) \<and>
     auth_users (store (snd (createPortalUser all_complete ex_params stale_world))) = []"
    by auto
  from sync_failure_compensated [where e = unavailable and j = "\<lparr>js_success = True, js_user_id = None, js_message = None, js_error = None\<rparr>"
         and d' = "store ex_world",
         OF f disjI2 [OF disjI1 [OF g]] prod.collapse [symmetric]] g e
  have 3: "(\<exists>r. fst (createPortalUser sync_times_out ex_params ex_world) = Inr r \<and> \<not> success r \<and>
      error r = Some ''Erro ao sincronizar usuario: canceling statement due to statement timeout'') \<and>
     auth_users (store (snd (createPortalUser sync_times_out ex_params ex_world))) = []"
    by auto
  from d have 4: "\<exists>j d'. sync_at_step4 all_complete ex_params stale_world ''X'' = Inr (j, d') \<and>
      \<not> js_success j" by blast
  from 1 2 3 4 a b c d f g show ?thesis by simp
qed

text \<open>
  C4 (as amended). When the clean-up call does not throw, the existence query completes
  and exactly one active profile has the email at that moment, \<open>createPortalUser\<close>
  returns the \<open>DuplicateEmail\<close> failure and sends nothing after the existence query: no
  identity is created, no profile row is inserted and no customer row is changed. The
  only change to \<open>usuarios\<close> is what the clean-up of step 1 deleted; when the email has
  no soft-deleted row and at most one row, the whole database is unchanged.
\<close>

theorem duplicate_email_stops_run:
  assumes "case rpc_clean env of Throws m \<Rightarrow> False | _ \<Rightarrow> True"
      and "select_existing env = Completes"
      and "length (active_of (email p) (usuarios_after_step1 env p w)) = 1"
      and run: "createPortalUser env p w = (res, w')"
  shows "res = Inr DuplicateEmail \<and>
         calls w' = calls w @ [RpcClean (email p), SelectByEmail (email p)] \<and>
         auth_users (store w') = auth_users (store w) \<and>
         clientes (store w') = clientes (store w) \<and>
         usuarios (store w') = usuarios_after_step1 env p w \<and>
         set (usuarios (store w')) \<subseteq> set (usuarios (store w)) \<and>
         (deleted_of (email p) (usuarios (store w)) = [] \<and>
          length (rows_of (email p) (usuarios (store w))) \<le> 1 \<longrightarrow> store w' = store w)"
proof -
  from run_duplicate [OF assms(1-3)] run
  have r: "res = Inr DuplicateEmail" and w': "w' = world_at_step3 env p w" by simp_all
  have "deleted_of (email p) (usuarios (store w)) = [] \<and>
          length (rows_of (email p) (usuarios (store w))) \<le> 1 \<longrightarrow> store w' = store w"
    using after_step1_noop [of p w env] by (auto simp: w' world_at_step3_def)
  with r w' after_step1_subset [of env p w] show ?thesis
    by (simp add: world_at_step3_def)
qed

text \<open>
  The claim as first stated excludes every deletion. Here the email has one active and
  one soft-deleted profile: the run answers \<open>DuplicateEmail\<close>, and step 1 has deleted the
  soft-deleted row before the check.
\<close>

theorem duplicate_email_after_deletion:
  "active_of ''a@b.com'' (usuarios_after_step1 all_complete ex_params dup_world)
     = [ex_row ''u1'' ''a@b.com'' 10 None] \<and>
   fst (createPortalUser all_complete ex_params dup_world) = Inr DuplicateEmail \<and>
   usuarios (store dup_world)
     = [ex_row ''u1'' ''a@b.com'' 10 None, ex_row ''u3'' ''a@b.com'' 40 (Some 50)] \<and>
   usuarios (store (snd (createPortalUser all_complete ex_params dup_world)))
     = [ex_row ''u1'' ''a@b.com'' 10 None] \<and>
   usuarios (store (snd (createPortalUser all_complete ex_params dup_world)))
     \<noteq> usuarios (store dup_world)"
  by code_simp

theorem duplicate_email_stops_run_witness:
  "(case rpc_clean all_complete of Throws m \<Rightarrow> False | _ \<Rightarrow> True) \<and>
   select_existing all_complete = Completes \<and>
   length (active_of (email ex_params) (usuarios_after_step1 all_complete ex_params taken_world)) = 1 \<and>
   deleted_of (email ex_params) (usuarios (store taken_world)) = [] \<and>
   length (rows_of (email ex_params) (usuarios (store taken_world))) \<le> 1 \<and>
   fst (createPortalUser all_complete ex_params taken_world) = Inr DuplicateEmail \<and>
   store (snd (createPortalUser all_complete ex_params taken_world)) = store taken_world \<and>
   calls (snd (createPortalUser all_complete ex_params taken_world))
     = [RpcClean ''a@b.com'', SelectByEmail ''a@b.com'']"
proof -
  have a: "case rpc_clean all_complete of Throws m \<Rightarrow> False | _ \<Rightarrow> True" by code_simp
  have b: "select_existing all_complete = Completes" by code_simp
  have c: "length (active_of (email ex_params)
             (usuarios_after_step1 all_complete ex_params taken_world)) = 1" by code_simp
  have d: "deleted_of (email ex_params) (usuarios (store taken_world)) = []"
          "length (rows_of (email ex_params) (usuarios (store taken_world))) \<le> 1"
          "calls taken_world = []" "email ex_params = ''a@b.com''"
    by code_simp+
  from duplicate_email_stops_run [OF a b c prod.collapse [symmetric]] a b c d show ?thesis by simp
qed

text \<open>
  The statement above is about a single active profile. When the clean-up call failed
  and two active profiles share the email, \<open>.single()\<close> answers the existence query with
  \<open>PGRST116\<close>, the code the source takes for "no row": the run goes on and creates a
  third profile for the email.
\<close>

lemma several_active_profiles_pass_check:
  "active_of ''a@b.com'' (usuarios_after_step1 clean_rejected ex_params two_active_world)
     = [ex_row ''u1'' ''a@b.com'' 10 None, ex_row ''u2'' ''a@b.com'' 30 None] \<and>
   passes_check clean_rejected ex_params two_active_world \<and>
   fst (createPortalUser clean_rejected ex_params two_active_world) = Inr created \<and>
   map u_id (usuarios (store (snd (createPortalUser clean_rejected ex_params two_active_world))))
     = [''u1'', ''u2'', ''X'']"
  by code_simp

text \<open>
  C5 (as amended). When none of the awaited calls other than the compensating delete
  rejects with \<open>null\<close> or \<open>undefined\<close>, \<open>createPortalUser\<close> does not throw: it returns a
  response, and a response that is not a success carries a non-empty error text. (The
  compensating delete may reject with anything: its \<open>catch\<close> reads nothing of the value.)
  In \<open>sync_user_after_auth_creation\<close>, every error the statements raise other than
  \<open>QUERY_CANCELED\<close> and \<open>ASSERT_FAILURE\<close> is returned as
  \<open>{success: false, error: 'Erro ao sincronizar usuario: ' || SQLERRM}\<close>; a failure
  answer leaves the database as it was; the procedure ends with an error of its own only
  for those two conditions; and a profile id that already exists is returned as a
  failure answer.
\<close>

theorem failures_are_returned:
  "(rpc_clean env \<noteq> Throws Nullish \<and> select_existing env \<noteq> Throws Nullish \<and>
    createUser env \<noteq> Throws Nullish \<and> rpc_sync env \<noteq> Throws Nullish \<and>
    select_verify env \<noteq> Throws Nullish \<longrightarrow>
      (\<exists>r w'. createPortalUser env p w = (Inr r, w') \<and>
         (success r \<or> (\<exists>m. m \<noteq> [] \<and> error r = Some m)))) \<and>
   (sync_statements now chk X e n c d = Inl err \<and>
    sqlstate err \<noteq> ''57014'' \<and> sqlstate err \<noteq> ''P0004'' \<longrightarrow>
      sync_user_after_auth_creation now chk X e n c d =
        Inr (\<lparr>js_success = False, js_user_id = None, js_message = None,
              js_error = Some (''Erro ao sincronizar usuario: '' @ sqlerrm err)\<rparr>, d)) \<and>
   (sync_user_after_auth_creation now chk X e n c d = Inr (j, d') \<and> \<not> js_success j \<longrightarrow>
      d' = d \<and>
      (\<exists>err0. sync_statements now chk X e n c d = Inl err0 \<and>
         js_error j = Some (''Erro ao sincronizar usuario: '' @ sqlerrm err0))) \<and>
   (sync_user_after_auth_creation now chk X e n c d = Inl err \<longrightarrow>
      sync_statements now chk X e n c d = Inl err \<and>
      (sqlstate err = ''57014'' \<or> sqlstate err = ''P0004'')) \<and>
   (X \<in> set (map u_id (usuarios d)) \<longrightarrow>
      sync_user_after_auth_creation now chk X e n c d =
        Inr (\<lparr>js_success = False, js_user_id = None, js_message = None,
              js_error = Some ''Erro ao sincronizar usuario: duplicate key value violates unique constraint usuarios_pkey''\<rparr>,
             d))"
proof (intro conjI impI)
  assume nn: "rpc_clean env \<noteq> Throws Nullish \<and> select_existing env \<noteq> Throws Nullish \<and>
    createUser env \<noteq> Throws Nullish \<and> rpc_sync env \<noteq> Throws Nullish \<and>
    select_verify env \<noteq> Throws Nullish"
  obtain t w1 where t: "createPortalUser_try env p w = (t, w1)"
    by (cases "createPortalUser_try env p w")
  show "\<exists>r w'. createPortalUser env p w = (Inr r, w') \<and>
         (success r \<or> (\<exists>m. m \<noteq> [] \<and> error r = Some m))"
  proof (cases t)
    case (Inl th)
    show ?thesis
    proof (cases th)
      case (Error m)
      with Inl t caught [of env p w m w1] show ?thesis by simp
    next
      case Nullish
      with Inl t try_null [of env p w w1] nn show ?thesis by blast
    qed
  next
    case (Inr r)
    with t returned [of env p w r w1] try_Inr [of env p w r w1] show ?thesis
      by (auto simp: DuplicateEmail_def)
  qed
next
  assume "sync_statements now chk X e n c d = Inl err \<and>
    sqlstate err \<noteq> ''57014'' \<and> sqlstate err \<noteq> ''P0004''"
  then show "sync_user_after_auth_creation now chk X e n c d =
        Inr (\<lparr>js_success = False, js_user_id = None, js_message = None,
              js_error = Some (''Erro ao sincronizar usuario: '' @ sqlerrm err)\<rparr>, d)"
    by (simp add: sync_raises when_others_def)
next
  assume h: "sync_user_after_auth_creation now chk X e n c d = Inr (j, d') \<and> \<not> js_success j"
  then show "d' = d"
    by (cases "sync_statements now chk X e n c d")
       (auto simp: sync_user_after_auth_creation_def split: if_splits)
  from h not_synced [of now chk X e n c d j d']
  show "\<exists>err0. sync_statements now chk X e n c d = Inl err0 \<and>
         js_error j = Some (''Erro ao sincronizar usuario: '' @ sqlerrm err0)"
    by blast
next
  assume h: "sync_user_after_auth_creation now chk X e n c d = Inl err"
  from escaped [OF h] show "sync_statements now chk X e n c d = Inl err" by simp
  from escaped [OF h] show "sqlstate err = ''57014'' \<or> sqlstate err = ''P0004''"
    by (auto simp: when_others_def)
next
  assume "X \<in> set (map u_id (usuarios d))"
  from sync_raises [OF pkey_violation [OF this]]
  show "sync_user_after_auth_creation now chk X e n c d =
        Inr (\<lparr>js_success = False, js_user_id = None, js_message = None,
              js_error = Some ''Erro ao sincronizar usuario: duplicate key value violates unique constraint usuarios_pkey''\<rparr>,
             d)"
    by (simp add: when_others_def)
qed

text \<open>
  The claim as first stated holds for every outcome of the remote calls and for every
  error inside the procedure. When the existence query rejects with \<open>null\<close>, the handler
  of \<open>createPortalUser\<close> throws while it reads the message, and the error leaves the
  function. When the \<open>INSERT\<close> is cancelled by a statement timeout, the handler of the
  procedure does not trap the error, and the procedure ends with it.
\<close>

theorem failure_leaves_the_boundary:
  "select_existing check_rejects_null = Throws Nullish \<and>
   fst (createPortalUser check_rejects_null ex_params ex_world)
     = Inl (Error ''Cannot read properties of null (reading message)'') \<and>
   timing_out (new_usuario 100 ''X'' ''a@b.com'' ''Ana'') (usuarios (store ex_world))
     = Some statement_timeout \<and>
   sqlstate statement_timeout = ''57014'' \<and>
   sync_user_after_auth_creation 100 timing_out ''X'' ''a@b.com'' ''Ana'' ''c-1''
       (store ex_world) = Inl statement_timeout"
  by code_simp

theorem failures_are_returned_witness:
  "rpc_clean delete_rejects_null \<noteq> Throws Nullish \<and>
   select_existing delete_rejects_null \<noteq> Throws Nullish \<and>
   createUser delete_rejects_null \<noteq> Throws Nullish \<and>
   rpc_sync delete_rejects_null \<noteq> Throws Nullish \<and>
   select_verify delete_rejects_null \<noteq> Throws Nullish \<and>
   deleteUser delete_rejects_null = Throws Nullish \<and>
   fst (createPortalUser clean_throws ex_params ex_world) = Inr (failure_of ''Failed to fetch'') \<and>
   (\<exists>r w'. createPortalUser delete_rejects_null ex_params ex_world = (Inr r, w') \<and>
      (success r \<or> (\<exists>m. m \<noteq> [] \<and> error r = Some m))) \<and>
   fst (createPortalUser delete_rejects_null ex_params ex_world)
     = Inr (failure_of ''Erro ao sincronizar usuario: service unavailable'') \<and>
   ''X'' \<in> set (map u_id (usuarios (store stale_world))) \<and>
   sync_user_after_auth_creation 100 (\<lambda>row tbl. None) ''X'' ''a@b.com'' ''Ana'' ''c-1''
       (store stale_world) =
     Inr (\<lparr>js_success = False, js_user_id = None, js_message = None,
           js_error = Some ''Erro ao sincronizar usuario: duplicate key value violates unique constraint usuarios_pkey''\<rparr>,
          store stale_world) \<and>
   sync_statements 100 email_taken ''X'' ''a@b.com'' ''Ana'' ''c-1'' (store other_profile_world)
     = Inl \<lparr>sqlstate = ''23505'',
            sqlerrm = ''duplicate key value violates unique constraint usuarios_email_key''\<rparr> \<and>
   sync_user_after_auth_creation 100 email_taken ''X'' ''a@b.com'' ''Ana'' ''c-1''
       (store other_profile_world) =
     Inr (\<lparr>js_success = False, js_user_id = None, js_message = None,
           js_error = Some ''Erro ao sincronizar usuario: duplicate key value violates unique constraint usuarios_email_key''\<rparr>,
          store other_profile_world)"
proof -
  have a: "rpc_clean delete_rejects_null \<noteq> Throws Nullish \<and>
           select_existing delete_rejects_null \<noteq> Throws Nullish \<and>
           createUser delete_rejects_null \<noteq> Throws Nullish \<and>
           rpc_sync delete_rejects_null \<noteq> Throws Nullish \<and>
           select_verify delete_rejects_null \<noteq> Throws Nullish"
    by code_simp
  have b: "deleteUser delete_rejects_null = Throws Nullish"
          "fst (createPortalUser delete_rejects_null ex_params ex_world)
             = Inr (failure_of ''Erro ao sincronizar usuario: service unavailable'')"
          "''X'' \<in> set (map u_id (usuarios (store stale_world)))"
          "fst (createPortalUser clean_throws ex_params ex_world)
             = Inr (failure_of ''Failed to fetch'')"
    by code_simp+
  have c: "sync_statements 100 email_taken ''X'' ''a@b.com'' ''Ana'' ''c-1''
             (store other_profile_world)
           = Inl \<lparr>sqlstate = ''23505'',
                  sqlerrm = ''duplicate key value violates unique constraint usuarios_email_key''\<rparr>"
    by code_simp
  note t1 = failures_are_returned [of delete_rejects_null ex_params ex_world 100
      "\<lambda>row tbl. None" "''X''" "''a@b.com''" "''Ana''" "''c-1''" "store stale_world"]
  note t2 = failures_are_returned [of delete_rejects_null ex_params ex_world 100
      email_taken "''X''" "''a@b.com''" "''Ana''" "''c-1''" "store other_profile_world"
      "\<lparr>sqlstate = ''23505'',
        sqlerrm = ''duplicate key value violates unique constraint usuarios_email_key''\<rparr>"]
  from t1 a have 1: "\<exists>r w'. createPortalUser delete_rejects_null ex_params ex_world = (Inr r, w') \<and>
      (success r \<or> (\<exists>m. m \<noteq> [] \<and> error r = Some m))" by blast
  from t1 b(3) have 2: "sync_user_after_auth_creation 100 (\<lambda>row tbl. None) ''X'' ''a@b.com''
       ''Ana'' ''c-1'' (store stale_world) =
     Inr (\<lparr>js_success = False, js_user_id = None, js_message = None,
           js_error = Some ''Erro ao sincronizar usuario: duplicate key value violates unique constraint usuarios_pkey''\<rparr>,
          store stale_world)" by blast
  from t2 c have 3: "sync_user_after_auth_creation 100 email_taken ''X'' ''a@b.com'' ''Ana'' ''c-1''
       (store other_profile_world) =
     Inr (\<lparr>js_success = False, js_user_id = None, js_message = None,
           js_error = Some ''Erro ao sincronizar usuario: duplicate key value violates unique constraint usuarios_email_key''\<rparr>,
          store other_profile_world)" by simp
  from a b c 1 2 3 show ?thesis by simp
qed

text \<open>
  C6 (as amended). When the run gets past the existence check and \<open>createUser\<close> answers
  with an error, \<open>createPortalUser\<close> returns a failure whose text is
  \<open>Erro na autenticacao: \<close> followed by the message of the provider. The requests sent
  are the clean-up, the existence query and \<open>createUser\<close>, so there is no \<open>deleteUser\<close>;
  and the database is the one step 1 left.
\<close>

theorem auth_failure_prefixed:
  assumes "passes_check env p w" and "createUser env = Fails e"
      and run: "createPortalUser env p w = (res, w')"
  shows "res = Inr \<lparr>success = False, error = Some (''Erro na autenticacao: '' @ err_message e),
                    message = None, userId = None\<rparr> \<and>
         calls w' = calls w @ [RpcClean (email p), SelectByEmail (email p),
                CreateUser (email p) (password p) (nomeCliente p) (clienteId p)] \<and>
         store w' = (store w)\<lparr>usuarios := usuarios_after_step1 env p w\<rparr>"
  using run_create_fails [OF assms(1,2)] run by simp

text \<open>
  The claim as first stated has the text equal to the message of the provider. The text
  returned carries the prefix.
\<close>

theorem auth_failure_not_verbatim:
  "passes_check create_rejected ex_params ex_world \<and>
   createUser create_rejected = Fails already_registered \<and>
   err_message already_registered = ''User already registered'' \<and>
   fst (createPortalUser create_rejected ex_params ex_world)
     = Inr (failure_of ''Erro na autenticacao: User already registered'') \<and>
   fst (createPortalUser create_rejected ex_params ex_world)
     \<noteq> Inr (failure_of (err_message already_registered))"
  by code_simp

theorem auth_failure_prefixed_witness:
  "passes_check create_rejected ex_params ex_world \<and>
   createUser create_rejected = Fails already_registered \<and>
   fst (createPortalUser create_rejected ex_params ex_world) =
     Inr \<lparr>success = False, error = Some ''Erro na autenticacao: User already registered'',
          message = None, userId = None\<rparr> \<and>
   store (snd (createPortalUser create_rejected ex_params ex_world)) = store ex_world \<and>
   calls (snd (createPortalUser create_rejected ex_params ex_world)) =
     [RpcClean ''a@b.com'', SelectByEmail ''a@b.com'',
      CreateUser ''a@b.com'' ''secret1'' ''Ana'' ''c-1'']"
proof -
  have a: "passes_check create_rejected ex_params ex_world" by code_simp
  have b: "createUser create_rejected = Fails already_registered" by code_simp
  have c: "err_message already_registered = ''User already registered''"
          "(store ex_world)\<lparr>usuarios := usuarios_after_step1 create_rejected ex_params ex_world\<rparr>
             = store ex_world"
          "calls ex_world = []" "email ex_params = ''a@b.com''" "password ex_params = ''secret1''"
          "nomeCliente ex_params = ''Ana''" "clienteId ex_params = ''c-1''"
    by code_simp+
  from auth_failure_prefixed [OF a b prod.collapse [symmetric]] a b c show ?thesis by simp
qed

text \<open>
  C8 (as amended). \<open>testUserSync\<close> never changes the database. When both look-ups
  complete, an identity with the email exists (\<open>a\<close>, the first one listed) and exactly one
  active profile \<open>u\<close> has the email, it returns the two ids and \<open>idsMatch\<close>, which is true
  exactly when the ids are equal.
\<close>

theorem testUserSync_reports:
  "store (snd (testUserSync env e w)) = store w \<and>
   (listUsers env = Completes \<and> select_public env = Completes \<and>
    find (\<lambda>u. a_email u = e) (auth_users (store w)) = Some a \<and>
    active_of e (usuarios (store w)) = [u] \<longrightarrow>
      testUserSync env e w =
        (Some \<lparr>authId = a_id a, publicId = u_id u, idsMatch = (a_id a = u_id u)\<rparr>,
         w\<lparr>calls := calls w @ [ListUsers, SelectByEmail e]\<rparr>))"
  using testUserSync_reads_only testUserSync_report by blast

text \<open>
  The claim as first stated asks only for an active profile to exist. With two active
  profiles of the email, one of them synchronized with the identity, \<open>.single()\<close> answers
  with an error and \<open>testUserSync\<close> returns no result.
\<close>

theorem testUserSync_twins_no_report:
  "auth_users (store twin_world) = [\<lparr>a_id = ''X'', a_email = ''a@b.com''\<rparr>] \<and>
   active_of ''a@b.com'' (usuarios (store twin_world))
     = [ex_row ''X'' ''a@b.com'' 10 None, ex_row ''Y'' ''a@b.com'' 20 None] \<and>
   fst (testUserSync all_complete ''a@b.com'' twin_world) = None"
  by code_simp

theorem testUserSync_reports_witness:
  "listUsers all_complete = Completes \<and> select_public all_complete = Completes \<and>
   find (\<lambda>u. a_email u = ''a@b.com'') (auth_users (store synced_world))
     = Some \<lparr>a_id = ''X'', a_email = ''a@b.com''\<rparr> \<and>
   active_of ''a@b.com'' (usuarios (store synced_world)) = [ex_row ''X'' ''a@b.com'' 10 None] \<and>
   fst (testUserSync all_complete ''a@b.com'' synced_world)
     = Some \<lparr>authId = ''X'', publicId = ''X'', idsMatch = True\<rparr> \<and>
   find (\<lambda>u. a_email u = ''a@b.com'') (auth_users (store mismatched_world))
     = Some \<lparr>a_id = ''X'', a_email = ''a@b.com''\<rparr> \<and>
   active_of ''a@b.com'' (usuarios (store mismatched_world)) = [ex_row ''Y'' ''a@b.com'' 10 None] \<and>
   fst (testUserSync all_complete ''a@b.com'' mismatched_world)
     = Some \<lparr>authId = ''X'', publicId = ''Y'', idsMatch = False\<rparr> \<and>
   store (snd (testUserSync all_complete ''a@b.com'' synced_world)) = store synced_world"
proof -
  have a: "listUsers all_complete = Completes" "select_public all_complete = Completes"
    by code_simp+
  have b: "find (\<lambda>u. a_email u = ''a@b.com'') (auth_users (store synced_world))
             = Some \<lparr>a_id = ''X'', a_email = ''a@b.com''\<rparr>"
          "active_of ''a@b.com'' (usuarios (store synced_world))
             = [ex_row ''X'' ''a@b.com'' 10 None]"
    by code_simp+
  have c: "find (\<lambda>u. a_email u = ''a@b.com'') (auth_users (store mismatched_world))
             = Some \<lparr>a_id = ''X'', a_email = ''a@b.com''\<rparr>"
          "active_of ''a@b.com'' (usuarios (store mismatched_world))
             = [ex_row ''Y'' ''a@b.com'' 10 None]"
    by code_simp+
  have d: "u_id (ex_row ''X'' ''a@b.com'' 10 None) = ''X''"
          "u_id (ex_row ''Y'' ''a@b.com'' 10 None) = ''Y''"
    by (simp_all add: ex_row_def)
  from testUserSync_reports [of all_complete "''a@b.com''" synced_world "\<lparr>a_id = ''X'', a_email = ''a@b.com''\<rparr>"
             "ex_row ''X'' ''a@b.com'' 10 None"]
       testUserSync_reports [of all_complete "''a@b.com''" mismatched_world "\<lparr>a_id = ''X'', a_email = ''a@b.com''\<rparr>"
             "ex_row ''Y'' ''a@b.com'' 10 None"]
       a b c d
  show ?thesis by simp
qed



text \<open>
  C10. When the insert is accepted and no \<open>clientes\<close> row has the id \<open>p_cliente_id\<close>,
  \<open>sync_user_after_auth_creation\<close> returns \<open>success = true\<close> and changes nothing but
  \<open>usuarios\<close>: the \<open>UPDATE\<close> touches no row. Accordingly a successful
  \<open>createPortalUser\<close> whose customer id matches no row leaves \<open>clientes\<close> as it was, so
  no customer row gains a reference to the new profile.
\<close>

theorem sync_succeeds_without_cliente:
  "(X \<notin> set (map u_id (usuarios d)) \<and> chk (new_usuario now X e n) (usuarios d) = None \<and>
    (\<forall>r \<in> set (clientes d). c_id r \<noteq> c) \<longrightarrow>
      sync_user_after_auth_creation now chk X e n c d =
        Inr (\<lparr>js_success = True, js_user_id = Some X,
              js_message = Some ''Usuario sincronizado com sucesso'', js_error = None\<rparr>,
             d\<lparr>usuarios := usuarios d @ [new_usuario now X e n]\<rparr>)) \<and>
   (createPortalUser env p w = (Inr r, w') \<and> success r \<and>
    (\<forall>r \<in> set (clientes (store w)). c_id r \<noteq> clienteId p) \<longrightarrow>
      clientes (store w') = clientes (store w))"
proof (intro conjI impI)
  assume "X \<notin> set (map u_id (usuarios d)) \<and> chk (new_usuario now X e n) (usuarios d) = None \<and>
    (\<forall>r \<in> set (clientes d). c_id r \<noteq> c)"
  then have "sync_statements now chk X e n c d
      = Inr (d\<lparr>usuarios := usuarios d @ [new_usuario now X e n]\<rparr>)"
    by (simp add: sync_without_cliente)
  then show "sync_user_after_auth_creation now chk X e n c d =
        Inr (\<lparr>js_success = True, js_user_id = Some X,
              js_message = Some ''Usuario sincronizado com sucesso'', js_error = None\<rparr>,
             d\<lparr>usuarios := usuarios d @ [new_usuario now X e n]\<rparr>)"
    by (rule sync_commits)
next
  assume h: "createPortalUser env p w = (Inr r, w') \<and> success r \<and>
    (\<forall>r \<in> set (clientes (store w)). c_id r \<noteq> clienteId p)"
  then have run: "createPortalUser env p w = (Inr r, w')" and ok: "success r"
    and none: "\<forall>r \<in> set (clientes (store w)). c_id r \<noteq> clienteId p" by simp_all
  from success_inversion [OF run ok] obtain Y d' where
    d': "sync_statements (clock env) (usuarios_check env) Y (email p) (nomeCliente p)
             (clienteId p) (store (world_at_step4 env p w Y)) = Inr d'"
    and st: "store w' = d'" by blast
  from sync_statements_Inr(4) [OF d'] none st
  show "clientes (store w') = clientes (store w)"
    by (simp add: world_at_step4_simps update_nothing)
qed

theorem sync_succeeds_without_cliente_witness:
  "fst (createPortalUser all_complete no_such_cliente ex_world) = Inr created \<and>
   success created \<and>
   clientes (store ex_world) = [ex_cliente] \<and> c_id ex_cliente \<noteq> clienteId no_such_cliente \<and>
   clientes (store (snd (createPortalUser all_complete no_such_cliente ex_world))) = [ex_cliente] \<and>
   usuario_portal_id ex_cliente = None \<and>
   (\<exists>j d'. sync_user_after_auth_creation 100 (\<lambda>row tbl. None) ''X'' ''a@b.com'' ''Ana''
      ''c-404'' (store ex_world) = Inr (j, d') \<and> js_success j \<and>
      clientes d' = [ex_cliente])"
proof -
  have a: "fst (createPortalUser all_complete no_such_cliente ex_world) = Inr created"
          "success created" by code_simp+
  have b: "clientes (store ex_world) = [ex_cliente]"
          "c_id ex_cliente \<noteq> clienteId no_such_cliente"
          "usuario_portal_id ex_cliente = None"
          "c_id ex_cliente \<noteq> ''c-404''"
          "usuarios (store ex_world) = []"
    by code_simp+
  have run: "createPortalUser all_complete no_such_cliente ex_world
      = (Inr created, snd (createPortalUser all_complete no_such_cliente ex_world))"
    using a(1) by (metis prod.collapse)
  note t = sync_succeeds_without_cliente [of "''X''" "store ex_world" "\<lambda>row tbl. None" 100
              "''a@b.com''" "''Ana''" "''c-404''" all_complete no_such_cliente ex_world created
              "snd (createPortalUser all_complete no_such_cliente ex_world)"]
  from t run a(2) b
  have 1: "clientes (store (snd (createPortalUser all_complete no_such_cliente ex_world)))
      = [ex_cliente]" by simp
  from t b
  have 2: "\<exists>j d'. sync_user_after_auth_creation 100 (\<lambda>row tbl. None) ''X'' ''a@b.com'' ''Ana''
      ''c-404'' (store ex_world) = Inr (j, d') \<and> js_success j \<and> clientes d' = [ex_cliente]"
    by simp
  from a b 1 2 show ?thesis by simp
qed

end
